theory Spec2Isabelle
  imports Main
begin

section \<open>Go values, dynamic types and the heap\<close>

text \<open>
  The package works on \<^verbatim>\<open>interface{}\<close> values and inspects them with
  \<^verbatim>\<open>reflect\<close>. A boxed value is modelled by \<open>val\<close>: the nil interface \<open>VNil\<close> or a
  value that carries its dynamic type. The universe holds booleans, integers, strings,
  functions, channels, slices, maps, pointers and declared struct types; floats, arrays,
  unnamed struct types, defined types over a non-struct type and pointers into the middle
  of an object are outside it. A pointer is nil or the address of a heap cell.

  An interface type is identified by its method set; the method sets considered are the
  subsets of the four contracts of package \<^verbatim>\<open>iface\<close> (Unwrap, Is, As, Wrap), so that
  \<open>TInterface False False False False\<close> is \<^verbatim>\<open>interface{}\<close>.
\<close>

datatype gtype =
    TBool
  | TInt
  | TString
  | TFunc string
  | TChan gtype
  | TSlice gtype
  | TMap gtype gtype
  | TPtr gtype
  | TInterface bool bool bool bool
  | TNamed string
  | TLink
  | TBuildLink

datatype kind =
  KBool | KInt | KString | KFunc | KChan | KSlice | KMap | KPtr | KInterface | KStruct

fun Kind :: "gtype \<Rightarrow> kind" where
  "Kind TBool = KBool"
| "Kind TInt = KInt"
| "Kind TString = KString"
| "Kind (TFunc _) = KFunc"
| "Kind (TChan _) = KChan"
| "Kind (TSlice _) = KSlice"
| "Kind (TMap _ _) = KMap"
| "Kind (TPtr _) = KPtr"
| "Kind (TInterface _ _ _ _) = KInterface"
| "Kind (TNamed _) = KStruct"
| "Kind TLink = KStruct"
| "Kind TBuildLink = KStruct"

text \<open>
  A struct value lists its fields in declaration order, each with its declared type. A map
  value lists its entries (distinct keys); a function or channel value is nil or an
  identity.
\<close>

datatype val =
    VNil
  | VBool bool
  | VInt int
  | VString string
  | VFunc string "nat option"
  | VChan gtype "nat option"
  | VSlice gtype "val list option"
  | VMap gtype gtype "(val \<times> val) list option"
  | VPtr gtype "nat option"
  | VStruct string "(gtype \<times> val) list"

text \<open>\<^verbatim>\<open>reflect.TypeOf\<close>: the dynamic type, and no type for the nil interface.\<close>

fun TypeOf :: "val \<Rightarrow> gtype option" where
  "TypeOf VNil = None"
| "TypeOf (VBool _) = Some TBool"
| "TypeOf (VInt _) = Some TInt"
| "TypeOf (VString _) = Some TString"
| "TypeOf (VFunc sg _) = Some (TFunc sg)"
| "TypeOf (VChan ty _) = Some (TChan ty)"
| "TypeOf (VSlice ty _) = Some (TSlice ty)"
| "TypeOf (VMap kt vt _) = Some (TMap kt vt)"
| "TypeOf (VPtr ty _) = Some (TPtr ty)"
| "TypeOf (VStruct n _) = Some (TNamed n)"

text \<open>\<^verbatim>\<open>reflect.Value.IsNil\<close> on the kinds that have a nil of their own.\<close>

fun IsNil :: "val \<Rightarrow> bool" where
  "IsNil (VFunc _ None) = True"
| "IsNil (VChan _ None) = True"
| "IsNil (VSlice _ None) = True"
| "IsNil (VMap _ _ None) = True"
| "IsNil (VPtr _ None) = True"
| "IsNil _ = False"

subsection \<open>Holder and Link (chain.go)\<close>

record Holder =
  Value :: val
  Ok :: bool

record Link =
  h :: Holder
  v :: val

text \<open>
  A heap cell is a \<^verbatim>\<open>Link\<close>, a \<^verbatim>\<open>buildLink\<close> (a struct that embeds one \<^verbatim>\<open>Link\<close>)
  or a variable holding a value. Addresses are indices into the heap.
\<close>

datatype obj = OLink Link | OBuildLink Link | OVar val

type_synonym heap = "obj list"

text \<open>
  A panic is an explicit \<^verbatim>\<open>panic(msg)\<close> of the package or one of two run-time errors:
  "invalid memory address or nil pointer dereference" and "comparing uncomparable type".
\<close>

datatype panic = PanicMsg string | NilDereference | UncomparableType

definition zeroHolder :: Holder where
  "zeroHolder = \<lparr>Value = VNil, Ok = False\<rparr>"

definition zeroLink :: Link where
  "zeroLink = \<lparr>h = zeroHolder, v = VNil\<rparr>"

subsection \<open>Interface equality (the operator ==)\<close>

text \<open>
  Comparing two interface values compares the dynamic types first; values of one
  uncomparable type (slice, map, function, or a struct with such a field) make the
  comparison panic. Struct values are compared field by field in source order, stopping
  at the first difference; a field of interface type is compared as an interface value.
\<close>

fun comparable :: "val \<Rightarrow> bool"
  and comparableFields :: "(gtype \<times> val) list \<Rightarrow> bool" where
  "comparable (VFunc _ _) = False"
| "comparable (VSlice _ _) = False"
| "comparable (VMap _ _ _) = False"
| "comparable (VStruct _ fs) = comparableFields fs"
| "comparable _ = True"
| "comparableFields [] = True"
| "comparableFields (f # fs) =
     ((case Kind (fst f) of
         KFunc \<Rightarrow> False
       | KSlice \<Rightarrow> False
       | KMap \<Rightarrow> False
       | KStruct \<Rightarrow> comparable (snd f)
       | _ \<Rightarrow> True) \<and> comparableFields fs)"

fun goEq :: "val \<Rightarrow> val \<Rightarrow> panic + bool"
  and valEq :: "val \<Rightarrow> val \<Rightarrow> panic + bool"
  and fieldsEq :: "(gtype \<times> val) list \<Rightarrow> (gtype \<times> val) list \<Rightarrow> panic + bool" where
  "goEq a b =
     (if a = VNil \<or> b = VNil then Inr (a = b)
      else if TypeOf a \<noteq> TypeOf b then Inr False
      else if \<not> comparable a then Inl UncomparableType
      else valEq a b)"
| "valEq (VStruct n fs) b = (case b of VStruct m gs \<Rightarrow> fieldsEq fs gs | _ \<Rightarrow> Inr False)"
| "valEq a b = Inr (a = b)"
| "fieldsEq [] gs = Inr (gs = [])"
| "fieldsEq (f # fs) gs =
     (case gs of
        [] \<Rightarrow> Inr False
      | g # gs' \<Rightarrow>
          (case (if Kind (fst f) = KInterface then goEq (snd f) (snd g)
                 else valEq (snd f) (snd g)) of
             Inl p \<Rightarrow> Inl p
           | Inr eq \<Rightarrow> if eq then fieldsEq fs gs' else Inr False))"

subsection \<open>Deep equality (reflect.DeepEqual)\<close>

text \<open>
  \<^verbatim>\<open>reflect.DeepEqual\<close> compares two lists of values position by position. A nil
  interface equals only a nil interface and values of different dynamic types differ.
  Function values are equal only when both are nil; slices, maps and structs are compared
  by content; pointers are equal when they are the same address or point to deeply equal
  cells. A pair of addresses already under comparison counts as equal, which is how the
  library ends on cyclic data.
\<close>

fun cellFields :: "obj \<Rightarrow> val list" where
  "cellFields (OLink l) = [Value (h l), VBool (Ok (h l)), v l]"
| "cellFields (OBuildLink l) = [Value (h l), VBool (Ok (h l)), v l]"
| "cellFields (OVar x) = [x]"

fun sameCell :: "obj \<Rightarrow> obj \<Rightarrow> bool" where
  "sameCell (OLink _) (OLink _) = True"
| "sameCell (OBuildLink _) (OBuildLink _) = True"
| "sameCell (OVar _) (OVar _) = True"
| "sameCell _ _ = False"

definition unvisited :: "heap \<Rightarrow> (nat \<times> nat) list \<Rightarrow> nat" where
  "unvisited H vis = card (({..<length H} \<times> {..<length H}) - set vis)"

lemma unvisited_less:
  "a < length H \<Longrightarrow> b < length H \<Longrightarrow> (a, b) \<notin> set vis \<Longrightarrow>
     unvisited H ((a, b) # vis) < unvisited H vis"
  unfolding unvisited_def
  by (rule psubset_card_mono) auto

lemma size_map_snd_le:
  "size_list (size \<circ> snd) fs \<le> size_list (size_prod f size) fs"
  by (induction fs) auto

lemma size_map_snd_lt2:
  "size_list (size \<circ> snd) fs < Suc (Suc (size_list (size_prod f size) fs + n))"
  using size_map_snd_le [of fs f] by linarith

lemma size_map_snd_lt3:
  "size_list (size \<circ> snd) fs < Suc (Suc (Suc (size_list (size_prod f size) fs + n)))"
  using size_map_snd_le [of fs f] by linarith

function deepValueEquals ::
  "heap \<Rightarrow> (nat \<times> nat) list \<Rightarrow> val list \<Rightarrow> val list \<Rightarrow> bool" where
  "deepValueEquals H vis [] ys = (ys = [])"
| "deepValueEquals H vis (x # xs) [] = False"
| "deepValueEquals H vis (x # xs) (y # ys) =
    ((if x = VNil \<or> y = VNil then x = y
      else if TypeOf x \<noteq> TypeOf y then False
      else (case x of
          VFunc _ f \<Rightarrow> (case y of VFunc _ g \<Rightarrow> f = None \<and> g = None | _ \<Rightarrow> False)
        | VSlice _ s1 \<Rightarrow>
            (case y of
               VSlice _ s2 \<Rightarrow>
                 (case s1 of
                    None \<Rightarrow> s2 = None
                  | Some es1 \<Rightarrow>
                      (case s2 of
                         None \<Rightarrow> False
                       | Some es2 \<Rightarrow> length es1 = length es2 \<and> deepValueEquals H vis es1 es2))
             | _ \<Rightarrow> False)
        | VMap _ _ m1 \<Rightarrow>
            (case y of
               VMap _ _ m2 \<Rightarrow>
                 (case m1 of
                    None \<Rightarrow> m2 = None
                  | Some e1 \<Rightarrow>
                      (case m2 of
                         None \<Rightarrow> False
                       | Some e2 \<Rightarrow>
                           length e1 = length e2 \<and>
                           list_all (\<lambda>k. map_of e2 k \<noteq> None) (map fst e1) \<and>
                           deepValueEquals H vis (map snd e1)
                             (map (\<lambda>k. the (map_of e2 k)) (map fst e1))))
             | _ \<Rightarrow> False)
        | VPtr _ p \<Rightarrow>
            (case y of
               VPtr _ q \<Rightarrow>
                 (case p of
                    None \<Rightarrow> q = None
                  | Some a \<Rightarrow>
                      (case q of
                         None \<Rightarrow> False
                       | Some b \<Rightarrow>
                           if a = b then True
                           else if a < length H \<and> b < length H then
                             (if (a, b) \<in> set vis then True
                              else sameCell (H ! a) (H ! b) \<and>
                                   deepValueEquals H ((a, b) # vis)
                                     (cellFields (H ! a)) (cellFields (H ! b)))
                           else False))
             | _ \<Rightarrow> False)
        | VStruct _ fs \<Rightarrow>
            (case y of
               VStruct _ gs \<Rightarrow> deepValueEquals H vis (map snd fs) (map snd gs)
             | _ \<Rightarrow> False)
        | _ \<Rightarrow> x = y))
     \<and> deepValueEquals H vis xs ys)"
  by pat_completeness auto

termination
  apply (relation "inv_image (less_than <*lex*> less_than)
           (\<lambda>(H, vis, xs, ys). (unvisited H vis, size_list size xs))")
  apply (auto simp: unvisited_less size_map_snd_lt2 size_map_snd_lt3)
  done

definition DeepEqual :: "heap \<Rightarrow> val \<Rightarrow> val \<Rightarrow> bool" where
  "DeepEqual H a b = deepValueEquals H [] [a] [b]"

section \<open>Package x: nil detection and type examples\<close>

text \<open>\<^verbatim>\<open>x.ValueOf\<close> (nil.go): no value for the nil interface and for a nil channel,
  function, map, pointer or slice.\<close>

definition ValueOf :: "val \<Rightarrow> val option" where
  "ValueOf x =
     (case TypeOf x of
        None \<Rightarrow> None
      | Some ty \<Rightarrow>
          if (Kind ty = KChan \<or> Kind ty = KFunc \<or> Kind ty = KMap \<or> Kind ty = KPtr
              \<or> Kind ty = KSlice) \<and> IsNil x
          then None else Some x)"

definition Nil :: "val \<Rightarrow> bool" where
  "Nil x = (case ValueOf x of None \<Rightarrow> True | Some _ \<Rightarrow> False)"

datatype error = ErrIncorrectType

fun Error :: "error \<Rightarrow> string" where
  "Error ErrIncorrectType = ''must be a pointer''"

record TypeExample =
  t :: gtype

text \<open>
  The declarations of the program that uses the package: for a declared struct type, or a
  pointer to one, the methods it has among the four contracts. A method receives the
  heap, its receiver and its argument; it may panic and may write the heap.
\<close>

record prog =
  UnwrapM :: "gtype \<Rightarrow> (heap \<Rightarrow> val \<Rightarrow> panic + ((val \<times> bool) \<times> heap)) option"
  IsM :: "gtype \<Rightarrow> (heap \<Rightarrow> val \<Rightarrow> val \<Rightarrow> panic + (bool \<times> heap)) option"
  AsM :: "gtype \<Rightarrow> (heap \<Rightarrow> val \<Rightarrow> val \<Rightarrow> panic + (bool \<times> heap)) option"
  WrapM :: "gtype \<Rightarrow> (heap \<Rightarrow> val \<Rightarrow> val \<Rightarrow> panic + (bool \<times> heap)) option"

fun declared :: "gtype \<Rightarrow> bool" where
  "declared (TNamed _) = True"
| "declared (TPtr (TNamed _)) = True"
| "declared _ = False"

definition builtin :: "gtype \<Rightarrow> bool" where
  "builtin ty = (ty = TPtr TLink \<or> ty = TPtr TBuildLink)"

text \<open>Method sets: \<^verbatim>\<open>*Link\<close> and \<^verbatim>\<open>*buildLink\<close> have all four methods.\<close>

definition hasUnwrap :: "prog \<Rightarrow> gtype \<Rightarrow> bool" where
  "hasUnwrap env ty = (builtin ty \<or> (declared ty \<and> UnwrapM env ty \<noteq> None))"

definition hasIs :: "prog \<Rightarrow> gtype \<Rightarrow> bool" where
  "hasIs env ty = (builtin ty \<or> (declared ty \<and> IsM env ty \<noteq> None))"

definition hasAs :: "prog \<Rightarrow> gtype \<Rightarrow> bool" where
  "hasAs env ty = (builtin ty \<or> (declared ty \<and> AsM env ty \<noteq> None))"

definition hasWrap :: "prog \<Rightarrow> gtype \<Rightarrow> bool" where
  "hasWrap env ty = (builtin ty \<or> (declared ty \<and> WrapM env ty \<noteq> None))"

text \<open>
  \<^verbatim>\<open>reflect.Type.AssignableTo\<close>: a type is assignable to itself and to an interface type
  it implements.
\<close>

fun AssignableTo :: "prog \<Rightarrow> gtype \<Rightarrow> gtype \<Rightarrow> bool" where
  "AssignableTo env ty (TInterface u i a w) =
     ((if u then hasUnwrap env ty else True) \<and> (if i then hasIs env ty else True) \<and>
      (if a then hasAs env ty else True) \<and> (if w then hasWrap env ty else True))"
| "AssignableTo env ty ty' = (ty = ty')"

text \<open>\<^verbatim>\<open>x.MakeTypeExample\<close> (type.go): calling \<^verbatim>\<open>Kind\<close> on the type of a nil interface
  dereferences nil.\<close>

definition MakeTypeExample :: "val \<Rightarrow> panic + (error + TypeExample)" where
  "MakeTypeExample example =
     (case TypeOf example of
        None \<Rightarrow> Inl NilDereference
      | Some exampleType \<Rightarrow>
          (case exampleType of
             TPtr el \<Rightarrow> Inr (Inr \<lparr>t = el\<rparr>)
           | _ \<Rightarrow> Inr (Inl ErrIncorrectType)))"

text \<open>\<^verbatim>\<open>TypeExample.AssignableFrom\<close>: a method call on \<^verbatim>\<open>other\<close>, which is the nil
  \<^verbatim>\<open>reflect.Type\<close> when the value inspected was the nil interface.\<close>

definition AssignableFrom :: "prog \<Rightarrow> TypeExample \<Rightarrow> gtype option \<Rightarrow> panic + bool" where
  "AssignableFrom env e other =
     (case other of
        None \<Rightarrow> Inl NilDereference
      | Some ty \<Rightarrow> Inr (AssignableTo env ty (t e)))"

section \<open>Package chain\<close>

subsection \<open>Holder\<close>

definition Holder_Set :: "Holder \<Rightarrow> val \<Rightarrow> Holder" where
  "Holder_Set ho x = ho\<lparr>Value := x, Ok := True\<rparr>"

definition Holder_Get :: "Holder \<Rightarrow> val \<times> bool" where
  "Holder_Get ho = (if \<not> Ok ho then (VNil, False) else (Value ho, True))"

definition Hold :: "val \<Rightarrow> Holder" where
  "Hold x = Holder_Set zeroHolder x"

subsection \<open>Link\<close>

text \<open>The methods of \<^verbatim>\<open>*Link\<close> on the struct they point to; a method that writes its
  receiver returns the struct updated.\<close>

definition Link_Set :: "Link \<Rightarrow> val \<Rightarrow> Link" where
  "Link_Set l x = l\<lparr>v := x\<rparr>"

definition Link_Unwrap :: "Link \<Rightarrow> val \<times> bool" where
  "Link_Unwrap l = Holder_Get (h l)"

definition Link_Wrap :: "Link \<Rightarrow> val \<Rightarrow> Link \<times> bool" where
  "Link_Wrap l x = (l\<lparr>h := Holder_Set (h l) x\<rparr>, True)"

definition Link_Is :: "Link \<Rightarrow> val \<Rightarrow> panic + bool" where
  "Link_Is l target = goEq (v l) target"

text \<open>Dereferencing a receiver: a nil or invalid pointer is the run-time error.\<close>

definition loadLink :: "heap \<Rightarrow> nat option \<Rightarrow> panic + (nat \<times> Link)" where
  "loadLink H p =
     (case p of
        None \<Rightarrow> Inl NilDereference
      | Some a \<Rightarrow>
          if a < length H then (case H ! a of OLink l \<Rightarrow> Inr (a, l) | _ \<Rightarrow> Inl NilDereference)
          else Inl NilDereference)"

definition loadBuildLink :: "heap \<Rightarrow> nat option \<Rightarrow> panic + (nat \<times> Link)" where
  "loadBuildLink H p =
     (case p of
        None \<Rightarrow> Inl NilDereference
      | Some a \<Rightarrow>
          if a < length H
          then (case H ! a of OBuildLink l \<Rightarrow> Inr (a, l) | _ \<Rightarrow> Inl NilDereference)
          else Inl NilDereference)"

subsection \<open>buildLink\<close>

text \<open>The methods of \<^verbatim>\<open>*buildLink\<close> delegate to the embedded \<^verbatim>\<open>Link\<close>.\<close>

definition buildLink_Wrap :: "Link \<Rightarrow> val \<Rightarrow> Link \<times> bool" where
  "buildLink_Wrap l x = Link_Wrap l x"

definition buildLink_Unwrap :: "Link \<Rightarrow> val \<times> bool" where
  "buildLink_Unwrap l = Link_Unwrap l"

definition buildLink_Is :: "Link \<Rightarrow> val \<Rightarrow> panic + bool" where
  "buildLink_Is l target = Link_Is l target"

subsection \<open>Type assertions and method calls\<close>

text \<open>
  \<^verbatim>\<open>u, ok := v.(iface.Unwrap)\<close> followed by the call: the method is chosen by the dynamic
  type. \<open>callUnwrap\<close> is \<open>None\<close> when the assertion fails. In \<open>Is\<close>, \<open>As\<close> and \<open>Build\<close>
  a failed assertion and a method that returns false take the same branch, so \<open>callIs\<close>,
  \<open>callAs\<close> and \<open>callWrap\<close> give false with the heap untouched for a failed assertion.
\<close>

fun ptrOf :: "val \<Rightarrow> nat option" where
  "ptrOf (VPtr _ p) = p"
| "ptrOf _ = None"

definition userMethod :: "(gtype \<Rightarrow> 'm option) \<Rightarrow> val \<Rightarrow> 'm option" where
  "userMethod tab x =
     (case TypeOf x of None \<Rightarrow> None | Some ty \<Rightarrow> if declared ty then tab ty else None)"

definition callUnwrap ::
  "prog \<Rightarrow> heap \<Rightarrow> val \<Rightarrow> (panic + ((val \<times> bool) \<times> heap)) option" where
  "callUnwrap env H x =
     (if TypeOf x = Some (TPtr TLink) then
        Some (case loadLink H (ptrOf x) of
                Inl e \<Rightarrow> Inl e
              | Inr al \<Rightarrow> Inr (Link_Unwrap (snd al), H))
      else if TypeOf x = Some (TPtr TBuildLink) then
        Some (case loadBuildLink H (ptrOf x) of
                Inl e \<Rightarrow> Inl e
              | Inr al \<Rightarrow> Inr (buildLink_Unwrap (snd al), H))
      else (case userMethod (UnwrapM env) x of
              None \<Rightarrow> None
            | Some m \<Rightarrow> Some (m H x)))"

definition callIs :: "prog \<Rightarrow> heap \<Rightarrow> val \<Rightarrow> val \<Rightarrow> panic + (bool \<times> heap)" where
  "callIs env H x target =
     (if TypeOf x = Some (TPtr TLink) then
        (case loadLink H (ptrOf x) of
           Inl e \<Rightarrow> Inl e
         | Inr al \<Rightarrow> (case Link_Is (snd al) target of Inl e \<Rightarrow> Inl e | Inr b \<Rightarrow> Inr (b, H)))
      else if TypeOf x = Some (TPtr TBuildLink) then
        (case loadBuildLink H (ptrOf x) of
           Inl e \<Rightarrow> Inl e
         | Inr al \<Rightarrow>
             (case buildLink_Is (snd al) target of Inl e \<Rightarrow> Inl e | Inr b \<Rightarrow> Inr (b, H)))
      else (case userMethod (IsM env) x of
              None \<Rightarrow> Inr (False, H)
            | Some m \<Rightarrow> m H x target))"

definition callWrap :: "prog \<Rightarrow> heap \<Rightarrow> val \<Rightarrow> val \<Rightarrow> panic + (bool \<times> heap)" where
  "callWrap env H x src =
     (if TypeOf x = Some (TPtr TLink) then
        (case loadLink H (ptrOf x) of
           Inl e \<Rightarrow> Inl e
         | Inr al \<Rightarrow>
             (case Link_Wrap (snd al) src of
                (l', ok) \<Rightarrow> Inr (ok, H[fst al := OLink l'])))
      else if TypeOf x = Some (TPtr TBuildLink) then
        (case loadBuildLink H (ptrOf x) of
           Inl e \<Rightarrow> Inl e
         | Inr al \<Rightarrow>
             (case buildLink_Wrap (snd al) src of
                (l', ok) \<Rightarrow> Inr (ok, H[fst al := OBuildLink l'])))
      else (case userMethod (WrapM env) x of
              None \<Rightarrow> Inr (False, H)
            | Some m \<Rightarrow> m H x src))"

subsection \<open>Unwrap\<close>

definition Unwrap :: "prog \<Rightarrow> heap \<Rightarrow> val \<Rightarrow> panic + ((val \<times> bool) \<times> heap)" where
  "Unwrap env H x =
     (case callUnwrap env H x of
        None \<Rightarrow> Inr ((VNil, False), H)
      | Some r \<Rightarrow> r)"

subsection \<open>Is\<close>

text \<open>
  The loop of \<^verbatim>\<open>Is\<close> has no bound of its own (a cell may wrap itself), so the model
  takes fuel: one unit for each node visited, and \<open>None\<close> when it runs out.
\<close>

fun Is :: "nat \<Rightarrow> prog \<Rightarrow> heap \<Rightarrow> val \<Rightarrow> val \<Rightarrow> (panic + (bool \<times> heap)) option" where
  "Is 0 env H x target = None"
| "Is (Suc n) env H x target =
     (if Nil x \<and> Nil target then Some (Inr (TypeOf x = TypeOf target, H))
      else
        (case callIs env H x target of
           Inl e \<Rightarrow> Some (Inl e)
         | Inr r \<Rightarrow>
             if fst r then Some (Inr (True, snd r))
             else if DeepEqual (snd r) x target then Some (Inr (True, snd r))
             else
               (case Unwrap env (snd r) x of
                  Inl e \<Rightarrow> Some (Inl e)
                | Inr u \<Rightarrow>
                    if \<not> snd (fst u) then Some (Inr (False, snd u))
                    else Is n env (snd u) (fst (fst u)) target)))"

subsection \<open>As\<close>

text \<open>\<^verbatim>\<open>targetVal.Elem().Set(reflect.ValueOf(v))\<close>: the variable the target points to
  receives the value.\<close>

definition SetElem :: "heap \<Rightarrow> val \<Rightarrow> val \<Rightarrow> panic + heap" where
  "SetElem H targetVal x =
     (case ptrOf targetVal of
        None \<Rightarrow> Inl NilDereference
      | Some a \<Rightarrow>
          if a < length H then (case H ! a of OVar _ \<Rightarrow> Inr (H[a := OVar x]) | _ \<Rightarrow> Inl NilDereference)
          else Inl NilDereference)"

text \<open>
  \<^verbatim>\<open>As\<close> checks its target and then loops; \<^verbatim>\<open>Link.As\<close> calls \<^verbatim>\<open>As\<close> again on the
  held value. Fuel is one unit for each node visited, at any depth.
\<close>

function As :: "nat \<Rightarrow> prog \<Rightarrow> heap \<Rightarrow> val \<Rightarrow> val \<Rightarrow> (panic + (bool \<times> heap)) option"
  and AsLoop ::
    "nat \<Rightarrow> prog \<Rightarrow> heap \<Rightarrow> val \<Rightarrow> val \<Rightarrow> val \<Rightarrow> TypeExample \<Rightarrow> (panic + (bool \<times> heap)) option"
  and callAs :: "nat \<Rightarrow> prog \<Rightarrow> heap \<Rightarrow> val \<Rightarrow> val \<Rightarrow> (panic + (bool \<times> heap)) option"
  and Link_As :: "nat \<Rightarrow> prog \<Rightarrow> heap \<Rightarrow> Link \<Rightarrow> val \<Rightarrow> (panic + (bool \<times> heap)) option"
  and buildLink_As ::
    "nat \<Rightarrow> prog \<Rightarrow> heap \<Rightarrow> Link \<Rightarrow> val \<Rightarrow> (panic + (bool \<times> heap)) option" where
  "As n env H x target =
     (case ValueOf target of
        None \<Rightarrow> Some (Inl (PanicMsg ''chain: target must not be nil''))
      | Some targetVal \<Rightarrow>
          (case MakeTypeExample target of
             Inl e \<Rightarrow> Some (Inl e)
           | Inr (Inl err) \<Rightarrow> Some (Inl (PanicMsg (''chain: target '' @ Error err)))
           | Inr (Inr targetEx) \<Rightarrow> AsLoop n env H x target targetVal targetEx))"
| "AsLoop 0 env H x target targetVal targetEx = None"
| "AsLoop (Suc n) env H x target targetVal targetEx =
     (case AssignableFrom env targetEx (TypeOf x) of
        Inl e \<Rightarrow> Some (Inl e)
      | Inr asg \<Rightarrow>
          if asg then
            Some (case SetElem H targetVal x of Inl e \<Rightarrow> Inl e | Inr H' \<Rightarrow> Inr (True, H'))
          else
            (case callAs n env H x target of
               None \<Rightarrow> None
             | Some (Inl e) \<Rightarrow> Some (Inl e)
             | Some (Inr r) \<Rightarrow>
                 if fst r then Some (Inr (True, snd r))
                 else
                   (case Unwrap env (snd r) x of
                      Inl e \<Rightarrow> Some (Inl e)
                    | Inr u \<Rightarrow>
                        if \<not> snd (fst u) then Some (Inr (False, snd u))
                        else AsLoop n env (snd u) (fst (fst u)) target targetVal targetEx)))"
| "callAs n env H x target =
     (if TypeOf x = Some (TPtr TLink) then
        (case loadLink H (ptrOf x) of
           Inl e \<Rightarrow> Some (Inl e)
         | Inr al \<Rightarrow> Link_As n env H (snd al) target)
      else if TypeOf x = Some (TPtr TBuildLink) then
        (case loadBuildLink H (ptrOf x) of
           Inl e \<Rightarrow> Some (Inl e)
         | Inr al \<Rightarrow> buildLink_As n env H (snd al) target)
      else (case userMethod (AsM env) x of
              None \<Rightarrow> Some (Inr (False, H))
            | Some m \<Rightarrow> Some (m H x target)))"
| "Link_As n env H l target = As n env H (v l) target"
| "buildLink_As n env H l target = Link_As n env H l target"
  by pat_completeness auto

termination
  by (relation "measure (case_sum (case_sum (\<lambda>a. 5 * fst a + 1) (\<lambda>a. 5 * fst a))
         (case_sum (\<lambda>a. 5 * fst a + 4)
            (case_sum (\<lambda>a. 5 * fst a + 2) (\<lambda>a. 5 * fst a + 3))))") auto

subsection \<open>Build\<close>

text \<open>The pointer-receiver calls that \<^verbatim>\<open>Build\<close> makes on the node it allocates.\<close>

definition ptr_Link_Set :: "heap \<Rightarrow> nat option \<Rightarrow> val \<Rightarrow> panic + heap" where
  "ptr_Link_Set H p x =
     (case loadBuildLink H p of
        Inl e \<Rightarrow> Inl e
      | Inr al \<Rightarrow> Inr (H[fst al := OBuildLink (Link_Set (snd al) x)]))"

definition ptr_buildLink_Wrap :: "heap \<Rightarrow> nat option \<Rightarrow> val \<Rightarrow> panic + (bool \<times> heap)" where
  "ptr_buildLink_Wrap H p x =
     (case loadBuildLink H p of
        Inl e \<Rightarrow> Inl e
      | Inr al \<Rightarrow>
          (case buildLink_Wrap (snd al) x of
             (l', ok) \<Rightarrow> Inr (ok, H[fst al := OBuildLink l'])))"

fun BuildLoop :: "prog \<Rightarrow> heap \<Rightarrow> val \<Rightarrow> val list \<Rightarrow> panic + (val \<times> heap)" where
  "BuildLoop env H src [] = Inr (src, H)"
| "BuildLoop env H src (dst # rest) =
     (case callWrap env H dst src of
        Inl e \<Rightarrow> Inl e
      | Inr w \<Rightarrow>
          if fst w then BuildLoop env (snd w) dst rest
          else
            (let link = Some (length (snd w));
                 H1 = snd w @ [OBuildLink zeroLink]
             in case ptr_Link_Set H1 link dst of
                  Inl e \<Rightarrow> Inl e
                | Inr H2 \<Rightarrow>
                    (case ptr_buildLink_Wrap H2 link src of
                       Inl e \<Rightarrow> Inl e
                     | Inr k \<Rightarrow>
                         if \<not> fst k then Inl (PanicMsg ''Link.Wrap should always return true'')
                         else BuildLoop env (snd k) (VPtr TBuildLink link) rest)))"

definition Build :: "prog \<Rightarrow> heap \<Rightarrow> val list \<Rightarrow> panic + (val \<times> heap)" where
  "Build env H vals =
     (case vals of
        [] \<Rightarrow> Inl (PanicMsg ''chain: Build called with zero arguments'')
      | x # rest \<Rightarrow> (case rest of [] \<Rightarrow> Inr (x, H) | _ \<Rightarrow> BuildLoop env H x rest))"

text \<open>A program that declares no methods: every node is a default link or a plain value.\<close>

definition noMethods :: prog where
  "noMethods = \<lparr>UnwrapM = (\<lambda>_. None), IsM = (\<lambda>_. None), AsM = (\<lambda>_. None), WrapM = (\<lambda>_. None)\<rparr>"

section \<open>Notions and example states used in the statements\<close>

text \<open>The heap after \<^verbatim>\<open>Build("a", "b", "c")\<close>, started on a heap whose only cell is the
  string variable \<^verbatim>\<open>s\<close> at address 0.\<close>

definition abcHeap :: heap where
  "abcHeap =
     [OVar (VString ''''),
      OBuildLink \<lparr>h = \<lparr>Value = VString ''a'', Ok = True\<rparr>, v = VString ''b''\<rparr>,
      OBuildLink \<lparr>h = \<lparr>Value = VPtr TBuildLink (Some 1), Ok = True\<rparr>, v = VString ''c''\<rparr>]"


text \<open>The frame of \<^verbatim>\<open>As\<close> in a program without methods: it panics only on a
  dereference, writes only the target variable, and only when it returns true.\<close>

definition asFrame :: "heap \<Rightarrow> nat \<Rightarrow> panic + (bool \<times> heap) \<Rightarrow> bool" where
  "asFrame H a r =
     (case r of
        Inl p \<Rightarrow> p = NilDereference
      | Inr bh \<Rightarrow> if fst bh then (\<exists>w. snd bh = H[a := OVar w]) else snd bh = H)"

text \<open>
  A history of calls on one \<^verbatim>\<open>Link\<close>: \<^verbatim>\<open>Set\<close> and \<^verbatim>\<open>Wrap\<close>, applied in order to the
  zero value.
\<close>

datatype linkCall = CallSet val | CallWrap val

fun callLink :: "Link \<Rightarrow> linkCall \<Rightarrow> Link" where
  "callLink l (CallSet x) = Link_Set l x"
| "callLink l (CallWrap x) = fst (Link_Wrap l x)"

fun isWrap :: "linkCall \<Rightarrow> bool" where
  "isWrap (CallWrap _) = True"
| "isWrap (CallSet _) = False"

text \<open>
  A string variable at address 0 and, at address 1, a \<^verbatim>\<open>Link\<close> that holds 1 and wrapped
  the nil interface.
\<close>

definition nilWrapHeap :: heap where
  "nilWrapHeap = [OVar (VString ''''), OLink \<lparr>h = Hold VNil, v = VInt 1\<rparr>]"

text \<open>
  One step of the loop of \<open>Is\<close> that finds no match at the node and moves to its
  predecessor: the pair is (heap, node).
\<close>

definition IsMiss :: "prog \<Rightarrow> val \<Rightarrow> heap \<times> val \<Rightarrow> heap \<times> val \<Rightarrow> bool" where
  "IsMiss env target s s' =
     (\<not> (Nil (snd s) \<and> Nil target) \<and>
      (\<exists>H1. callIs env (fst s) (snd s) target = Inr (False, H1) \<and>
            \<not> DeepEqual H1 (snd s) target \<and>
            Unwrap env H1 (snd s) = Inr ((snd s', True), fst s')))"

text \<open>
  One step of the loop of \<open>As\<close> that finds no match at the node and moves to its
  predecessor; \<open>m\<close> is the fuel given to the node's own \<open>As\<close> method.
\<close>

definition AsMiss :: "nat \<Rightarrow> prog \<Rightarrow> val \<Rightarrow> heap \<times> val \<Rightarrow> heap \<times> val \<Rightarrow> bool" where
  "AsMiss m env target s s' =
     (\<exists>ty ex H1. TypeOf (snd s) = Some ty \<and> MakeTypeExample target = Inr (Inr ex) \<and>
        \<not> AssignableTo env ty (t ex) \<and>
        callAs m env (fst s) (snd s) target = Some (Inr (False, H1)) \<and>
        Unwrap env H1 (snd s) = Inr ((snd s', True), fst s'))"

text \<open>
  An integer variable at address 0 holding the sentinel 7 and, at address 1, a \<^verbatim>\<open>Link\<close>
  that holds the string "c" and wrapped the integer 42.
\<close>

definition link42Heap :: heap where
  "link42Heap = [OVar (VInt 7), OLink \<lparr>h = Hold (VInt 42), v = VString ''c''\<rparr>]"

text \<open>
  A target of type \<^verbatim>\<open>*string\<close> whose variable, at address 0, holds the sentinel "olleh",
  and a node of a declared type whose \<^verbatim>\<open>As\<close> method returns false and writes nothing.
\<close>

definition refuseProg :: prog where
  "refuseProg =
     noMethods\<lparr>AsM := (\<lambda>ty. if ty = TPtr (TNamed ''asMatcher'')
                              then Some (\<lambda>H x target. Inr (False, H)) else None)\<rparr>"

definition sentinelHeap :: heap where
  "sentinelHeap = [OVar (VString ''olleh''), OVar (VStruct ''asMatcher'' [])]"

text \<open>
  A declared struct type \<^verbatim>\<open>Always\<close> with one field of type \<^verbatim>\<open>interface{}\<close>: its \<^verbatim>\<open>Is\<close>
  method returns true for every target and its \<^verbatim>\<open>Unwrap\<close> method returns the field.
\<close>

definition alwaysProg :: prog where
  "alwaysProg =
     noMethods\<lparr>
       UnwrapM := (\<lambda>ty. if ty = TNamed ''Always''
                         then Some (\<lambda>H x. Inr ((case x of
                                                    VStruct _ (f # _) \<Rightarrow> snd f
                                                  | _ \<Rightarrow> VNil, True), H))
                         else None),
       IsM := (\<lambda>ty. if ty = TNamed ''Always''
                     then Some (\<lambda>H x target. Inr (True, H)) else None)\<rparr>"

text \<open>A \<^verbatim>\<open>Link\<close> at address 0 that holds the slice \<^verbatim>\<open>[]int{1}\<close> and wraps nothing.\<close>

definition sliceLinkHeap :: heap where
  "sliceLinkHeap = [OLink \<lparr>h = zeroHolder, v = VSlice TInt (Some [VInt 1])\<rparr>]"

definition alwaysNode :: val where
  "alwaysNode = VStruct ''Always'' [(TInterface False False False False, VPtr TLink (Some 0))]"

text \<open>The heap of \<^verbatim>\<open>Build(1, []int{1})\<close>: a \<^verbatim>\<open>buildLink\<close> that holds the slice and
  wraps the integer 1, and in front of it a \<^verbatim>\<open>Link\<close> that holds "x" and wraps it.\<close>

definition sliceChainHeap :: heap where
  "sliceChainHeap =
     [OBuildLink \<lparr>h = Hold (VInt 1), v = VSlice TInt (Some [VInt 1])\<rparr>,
      OLink \<lparr>h = Hold (VPtr TBuildLink (Some 0)), v = VString ''x''\<rparr>]"

text \<open>
  A declared struct type \<^verbatim>\<open>N\<close> whose pointer type has an \<^verbatim>\<open>Unwrap\<close> method that never
  touches its receiver and returns the nil interface as predecessor.
\<close>

definition nilNodeProg :: prog where
  "nilNodeProg =
     noMethods\<lparr>UnwrapM := (\<lambda>ty. if ty = TPtr (TNamed ''N'')
                                  then Some (\<lambda>H x. Inr ((VNil, True), H)) else None)\<rparr>"

text \<open>
  Values that \<^verbatim>\<open>reflect.DeepEqual\<close> finds equal to themselves: those that contain no
  non-nil function value (maps are listed with distinct keys).
\<close>

fun selfEqual :: "val \<Rightarrow> bool" where
  "selfEqual (VFunc _ f) = (f = None)"
| "selfEqual (VSlice _ s) = (case s of None \<Rightarrow> True | Some xs \<Rightarrow> list_all selfEqual xs)"
| "selfEqual (VMap _ _ m) =
     (case m of
        None \<Rightarrow> True
      | Some es \<Rightarrow> distinct (map fst es) \<and> list_all (\<lambda>e. selfEqual (snd e)) es)"
| "selfEqual (VStruct _ fs) = list_all (\<lambda>f. selfEqual (snd f)) fs"
| "selfEqual _ = True"

text \<open>
  A declared struct type \<^verbatim>\<open>M\<close> whose pointer type has an \<^verbatim>\<open>Is\<close> method that never
  touches its receiver and returns true for every target.
\<close>

definition matchAllProg :: prog where
  "matchAllProg =
     noMethods\<lparr>IsM := (\<lambda>ty. if ty = TPtr (TNamed ''M'')
                              then Some (\<lambda>H x target. Inr (True, H)) else None)\<rparr>"

text \<open>Two variables of the declared struct type \<^verbatim>\<open>T\<close>, both holding \<^verbatim>\<open>T{}\<close>.\<close>

definition twoStructHeap :: heap where
  "twoStructHeap = [OVar (VStruct ''T'' []), OVar (VStruct ''T'' [])]"

text \<open>Two \<^verbatim>\<open>Link\<close> values that hold "1" and "2" and wrap nothing yet.\<close>

definition twoLinkHeap :: heap where
  "twoLinkHeap =
     [OLink \<lparr>h = zeroHolder, v = VString ''1''\<rparr>, OLink \<lparr>h = zeroHolder, v = VString ''2''\<rparr>]"

text \<open>
  A variable of type \<^verbatim>\<open>*Link\<close> at address 0, holding nil; at address 1 a \<^verbatim>\<open>Link\<close> whose
  held value is the pointer to the \<^verbatim>\<open>Link\<close> at address 2.
\<close>

definition linkVarHeap :: heap where
  "linkVarHeap =
     [OVar (VPtr TLink None),
      OLink \<lparr>h = zeroHolder, v = VPtr TLink (Some 2)\<rparr>,
      OLink \<lparr>h = zeroHolder, v = VString ''inner''\<rparr>]"

section \<open>Properties\<close>

lemmas eval_defs =
  Build_def noMethods_def callWrap_def callIs_def callUnwrap_def userMethod_def
  ptr_Link_Set_def ptr_buildLink_Wrap_def loadBuildLink_def loadLink_def
  Link_Set_def Link_Unwrap_def Link_Wrap_def Link_Is_def
  buildLink_Wrap_def buildLink_Unwrap_def buildLink_Is_def
  Holder_Set_def Holder_Get_def Hold_def zeroLink_def zeroHolder_def
  Unwrap_def DeepEqual_def Nil_def ValueOf_def MakeTypeExample_def AssignableFrom_def
  SetElem_def builtin_def hasUnwrap_def hasIs_def hasAs_def hasWrap_def

subsection \<open>Build of three plain values\<close>

text \<open>
  Claim C1. \<^verbatim>\<open>Build("a", "b", "c")\<close> on plain strings returns a chain head \<open>c\<close> (a fresh
  \<^verbatim>\<open>*buildLink\<close>) such that, with any fuel of at least three, \<open>Is\<close> finds "a", "b" and
  "c" and does not find "d"; \<open>As\<close> into the string variable returns true and stores "c";
  one \<open>Unwrap\<close> of \<open>c\<close> succeeds and \<open>As\<close> on the node it yields stores "b".
\<close>

theorem C1_Build_transitive:
  "Build noMethods [OVar (VString '''')] [VString ''a'', VString ''b'', VString ''c'']
     = Inr (VPtr TBuildLink (Some 2), abcHeap)
   \<and> Is (Suc (Suc (Suc n))) noMethods abcHeap (VPtr TBuildLink (Some 2)) (VString ''a'')
     = Some (Inr (True, abcHeap))
   \<and> Is (Suc (Suc (Suc n))) noMethods abcHeap (VPtr TBuildLink (Some 2)) (VString ''b'')
     = Some (Inr (True, abcHeap))
   \<and> Is (Suc (Suc (Suc n))) noMethods abcHeap (VPtr TBuildLink (Some 2)) (VString ''c'')
     = Some (Inr (True, abcHeap))
   \<and> Is (Suc (Suc (Suc n))) noMethods abcHeap (VPtr TBuildLink (Some 2)) (VString ''d'')
     = Some (Inr (False, abcHeap))
   \<and> As (Suc (Suc n)) noMethods abcHeap (VPtr TBuildLink (Some 2)) (VPtr TString (Some 0))
     = Some (Inr (True, abcHeap[0 := OVar (VString ''c'')]))
   \<and> Unwrap noMethods (abcHeap[0 := OVar (VString ''c'')]) (VPtr TBuildLink (Some 2))
     = Inr ((VPtr TBuildLink (Some 1), True), abcHeap[0 := OVar (VString ''c'')])
   \<and> As (Suc (Suc n)) noMethods (abcHeap[0 := OVar (VString ''c'')]) (VPtr TBuildLink (Some 1))
       (VPtr TString (Some 0))
     = Some (Inr (True, abcHeap[0 := OVar (VString ''b'')]))"
  by (simp add: eval_defs abcHeap_def)

subsection \<open>Fuel and frame lemmas\<close>


lemma As_valid:
  "As n env H x (VPtr ty (Some a)) =
     AsLoop n env H x (VPtr ty (Some a)) (VPtr ty (Some a)) \<lparr>t = ty\<rparr>"
  by (simp add: ValueOf_def MakeTypeExample_def)

lemma callAs_valid:
  "callAs n env H x (VPtr ty (Some a)) =
     (if TypeOf x = Some (TPtr TLink) then
        (case loadLink H (ptrOf x) of
           Inl e \<Rightarrow> Some (Inl e)
         | Inr al \<Rightarrow> AsLoop n env H (v (snd al)) (VPtr ty (Some a)) (VPtr ty (Some a)) \<lparr>t = ty\<rparr>)
      else if TypeOf x = Some (TPtr TBuildLink) then
        (case loadBuildLink H (ptrOf x) of
           Inl e \<Rightarrow> Some (Inl e)
         | Inr al \<Rightarrow> AsLoop n env H (v (snd al)) (VPtr ty (Some a)) (VPtr ty (Some a)) \<lparr>t = ty\<rparr>)
      else (case userMethod (AsM env) x of
              None \<Rightarrow> Some (Inr (False, H))
            | Some m \<Rightarrow> Some (m H x (VPtr ty (Some a)))))"
  by (simp add: ValueOf_def MakeTypeExample_def split: sum.splits)

lemma AsLoop_mono:
  "AsLoop n env H x (VPtr ty (Some a)) (VPtr ty (Some a)) \<lparr>t = ty\<rparr> = Some r \<Longrightarrow>
   AsLoop (n + k) env H x (VPtr ty (Some a)) (VPtr ty (Some a)) \<lparr>t = ty\<rparr> = Some r"
proof (induction n arbitrary: H x r)
  case 0
  then show ?case by simp
next
  case (Suc n)
  have call: "callAs (n + k) env H' x' (VPtr ty (Some a)) = Some r'"
    if "callAs n env H' x' (VPtr ty (Some a)) = Some r'" for H' x' r'
    using that Suc.IH unfolding callAs_valid
    by (auto split: if_splits sum.splits option.splits)
  show ?case
    using Suc.prems
    by (auto simp del: callAs.simps simp: call Suc.IH split: sum.splits option.splits if_splits)
qed

lemma Is_mono: "Is n env H x target = Some r \<Longrightarrow> Is (n + k) env H x target = Some r"
proof (induction n arbitrary: H x r)
  case 0
  then show ?case by simp
next
  case (Suc n)
  show ?case
    using Suc.prems
    by (auto simp: Suc.IH split: sum.splits option.splits if_splits)
qed


lemma userMethod_noMethods [simp]:
  "userMethod (UnwrapM noMethods) x = None"
  "userMethod (IsM noMethods) x = None"
  "userMethod (AsM noMethods) x = None"
  "userMethod (WrapM noMethods) x = None"
  by (simp_all add: userMethod_def noMethods_def split: option.splits)

lemma Unwrap_noMethods_heap: "Unwrap noMethods H x = Inr (r, H') \<Longrightarrow> H' = H"
  by (auto simp: Unwrap_def callUnwrap_def split: if_splits sum.splits option.splits)

lemma Unwrap_noMethods_panic: "Unwrap noMethods H x = Inl p \<Longrightarrow> p = NilDereference"
  by (auto simp: Unwrap_def callUnwrap_def loadLink_def loadBuildLink_def
           split: if_splits sum.splits option.splits obj.splits)

lemma callIs_noMethods_heap: "callIs noMethods H x target = Inr (b, H') \<Longrightarrow> H' = H"
  by (auto simp: callIs_def split: if_splits sum.splits option.splits)

lemma Is_noMethods_heap:
  "Is n noMethods H x target = Some (Inr (b, H')) \<Longrightarrow> H' = H"
proof (induction n arbitrary: x)
  case 0
  then show ?case by simp
next
  case (Suc n)
  show ?case
    using Suc.prems
    by (auto split: sum.splits option.splits if_splits
             dest!: callIs_noMethods_heap Unwrap_noMethods_heap dest: Suc.IH)
qed

lemma loadLink_panic: "loadLink H p = Inl e \<Longrightarrow> e = NilDereference"
  by (auto simp: loadLink_def split: option.splits if_splits obj.splits)

lemma loadBuildLink_panic: "loadBuildLink H p = Inl e \<Longrightarrow> e = NilDereference"
  by (auto simp: loadBuildLink_def split: option.splits if_splits obj.splits)

lemma asFrame_simps [simp]:
  "asFrame H a (Inl p) = (p = NilDereference)"
  "asFrame H a (Inr (True, H')) = (\<exists>w. H' = H[a := OVar w])"
  "asFrame H a (Inr (False, H')) = (H' = H)"
  by (simp_all add: asFrame_def)

lemma AsLoop_noMethods:
  "AsLoop n noMethods H x (VPtr ty (Some a)) (VPtr ty (Some a)) \<lparr>t = ty\<rparr> = Some r \<Longrightarrow>
   asFrame H a r"
proof (induction n arbitrary: x r)
  case 0
  then show ?case by simp
next
  case (Suc n)
  have call: "asFrame H a r'"
    if "callAs n noMethods H x' (VPtr ty (Some a)) = Some r'" for x' r'
    using that unfolding callAs_valid
    by (auto split: if_splits sum.splits option.splits
             dest: Suc.IH loadLink_panic loadBuildLink_panic)
  show ?case
  proof (cases "AssignableFrom noMethods \<lparr>t = ty\<rparr> (TypeOf x)")
    case (Inl e)
    with Suc.prems show ?thesis
      by (auto simp: AssignableFrom_def split: option.splits)
  next
    case (Inr asg)
    show ?thesis
    proof (cases asg)
      case True
      with Inr Suc.prems show ?thesis
        by (auto simp: SetElem_def split: if_splits obj.splits)
    next
      case False
      with Inr Suc.prems obtain r' where
        c: "callAs n noMethods H x (VPtr ty (Some a)) = Some r'"
        by (auto simp del: callAs.simps split: option.splits)
      from call [OF c] have fr: "asFrame H a r'" .
      show ?thesis
      proof (cases r')
        case (Inl e)
        with c Inr False Suc.prems fr show ?thesis
          by (auto simp del: callAs.simps)
      next
        case (Inr bh)
        obtain b H1 where bh: "bh = (b, H1)" by (cases bh)
        show ?thesis
        proof (cases b)
          case True
          with c \<open>AssignableFrom noMethods \<lparr>t = ty\<rparr> (TypeOf x) = Inr asg\<close> False Inr bh
            Suc.prems fr show ?thesis
            by (auto simp del: callAs.simps)
        next
          case b: False
          with fr Inr bh have H1: "H1 = H" by simp
          from c \<open>AssignableFrom noMethods \<lparr>t = ty\<rparr> (TypeOf x) = Inr asg\<close> False Inr bh b H1
            Suc.prems show ?thesis
            by (auto simp del: callAs.simps split: sum.splits if_splits
                     dest!: Unwrap_noMethods_heap Unwrap_noMethods_panic dest: Suc.IH)
        qed
      qed
    qed
  qed
qed

subsection \<open>Presence in Holder and Link\<close>

lemma Holder_Get_foldl:
  "Holder_Get (foldl Holder_Set ho xs) = (if xs = [] then Holder_Get ho else (last xs, True))"
  by (induction xs arbitrary: ho) (auto simp: Holder_Get_def Holder_Set_def)

lemma Ok_foldl_callLink:
  "Ok (h (foldl callLink l calls)) = (Ok (h l) \<or> list_ex isWrap calls)"
proof (induction calls arbitrary: l)
  case Nil
  then show ?case by simp
next
  case (Cons c calls)
  then show ?case
    by (cases c) (simp_all add: Link_Set_def Link_Wrap_def Holder_Set_def)
qed

text \<open>
  Claim C8. \<open>Get\<close> on the zero \<open>Holder\<close> gives (nil, false); after \<open>Set x\<close> (or \<open>Hold x\<close>) it
  gives (x, true), also when \<open>x\<close> is nil; after any sequence of \<open>Set\<close> calls on the zero
  value it gives (nil, false) exactly when the sequence is empty. A \<open>Link\<close> built from the
  zero value by \<open>Set\<close> and \<open>Wrap\<close> calls reports no predecessor exactly when \<open>Wrap\<close> was never
  called, and a \<open>Link\<close> that wrapped nil unwraps to (nil, true), unlike the zero \<open>Link\<close>.
\<close>

theorem C8_Holder_presence:
  "Holder_Get zeroHolder = (VNil, False)
   \<and> Holder_Get (Holder_Set ho x) = (x, True)
   \<and> Holder_Get (Hold x) = (x, True)
   \<and> (Holder_Get (foldl Holder_Set zeroHolder xs) = (VNil, False)) = (xs = [])
   \<and> (snd (Link_Unwrap (foldl callLink zeroLink calls)) = False) = (list_ex isWrap calls = False)
   \<and> Link_Unwrap (fst (Link_Wrap l VNil)) = (VNil, True)
   \<and> Link_Unwrap zeroLink = (VNil, False)"
proof -
  have "snd (Link_Unwrap (foldl callLink zeroLink calls)) = list_ex isWrap calls"
    using Ok_foldl_callLink [of zeroLink calls]
    by (simp add: Link_Unwrap_def Holder_Get_def zeroLink_def zeroHolder_def)
  then show ?thesis
    by (simp add: Holder_Get_foldl)
       (simp add: Holder_Get_def Holder_Set_def Hold_def zeroHolder_def zeroLink_def
          Link_Unwrap_def Link_Wrap_def)
qed

subsection \<open>As on a nil node\<close>

text \<open>
  Claim C3 (the code departs from it). With any valid target, in any program and heap, \<open>As\<close>
  on the nil interface does not return false: the loop asks the type of nil whether it is
  assignable and the call dereferences nil. So it is for a string target, and when the
  traversal reaches the nil that a \<open>Link\<close> wrapped.
\<close>

theorem C3_As_nil_node_panics:
  "As (Suc n) env H VNil (VPtr ty (Some a)) = Some (Inl NilDereference)
   \<and> As (Suc n) noMethods [OVar (VString '''')] VNil (VPtr TString (Some 0))
     = Some (Inl NilDereference)
   \<and> Unwrap noMethods nilWrapHeap (VPtr TLink (Some 1)) = Inr ((VNil, True), nilWrapHeap)
   \<and> As (Suc (Suc n)) noMethods nilWrapHeap (VPtr TLink (Some 1)) (VPtr TString (Some 0))
     = Some (Inl NilDereference)"
  by (simp add: eval_defs nilWrapHeap_def)

subsection \<open>Fatal contract violations\<close>












subsection \<open>Traversal up to a node\<close>

lemma Is_miss_step:
  "IsMiss env target (H, x) (H', x') \<Longrightarrow> Is (Suc n) env H x target = Is n env H' x' target"
  by (auto simp: IsMiss_def)

lemma Is_reach:
  "(IsMiss env target)\<^sup>*\<^sup>* s s' \<Longrightarrow> Is n env (fst s') (snd s') target = Some r \<Longrightarrow>
     \<exists>k. Is (n + k) env (fst s) (snd s) target = Some r"
proof (induction rule: converse_rtranclp_induct)
  case base
  then show ?case by (intro exI [of _ 0]) simp
next
  case (step s s1)
  from step.IH [OF step.prems] obtain k where
    k: "Is (n + k) env (fst s1) (snd s1) target = Some r" by blast
  from step.hyps(1) have "IsMiss env target (fst s, snd s) (fst s1, snd s1)" by simp
  from Is_miss_step [OF this, of "n + k"] k
  have "Is (n + Suc k) env (fst s) (snd s) target = Some r" by simp
  then show ?case by blast
qed

lemma callAs_mono:
  "callAs n env H x (VPtr ty (Some a)) = Some r \<Longrightarrow>
   callAs (n + k) env H x (VPtr ty (Some a)) = Some r"
  unfolding callAs_valid
  by (auto split: if_splits sum.splits option.splits dest: AsLoop_mono)

lemma As_miss_step:
  assumes "AsMiss m env (VPtr ty (Some a)) (H, x) (H', x')"
  shows "AsLoop (Suc (m + n)) env H x (VPtr ty (Some a)) (VPtr ty (Some a)) \<lparr>t = ty\<rparr>
       = AsLoop (m + n) env H' x' (VPtr ty (Some a)) (VPtr ty (Some a)) \<lparr>t = ty\<rparr>"
proof -
  from assms obtain ty' H1 where
    ty': "TypeOf x = Some ty'" and na: "\<not> AssignableTo env ty' ty"
    and c: "callAs m env H x (VPtr ty (Some a)) = Some (Inr (False, H1))"
    and u: "Unwrap env H1 x = Inr ((x', True), H')"
    by (auto simp: AsMiss_def MakeTypeExample_def simp del: callAs.simps)
  from callAs_mono [OF c, of n]
  have "callAs (m + n) env H x (VPtr ty (Some a)) = Some (Inr (False, H1))" .
  with ty' na u show ?thesis
    by (simp add: AssignableFrom_def del: callAs.simps)
qed

lemma As_reach:
  "(AsMiss m env (VPtr ty (Some a)))\<^sup>*\<^sup>* s s' \<Longrightarrow>
   AsLoop n env (fst s') (snd s') (VPtr ty (Some a)) (VPtr ty (Some a)) \<lparr>t = ty\<rparr> = Some r \<Longrightarrow>
   \<exists>k. AsLoop k env (fst s) (snd s) (VPtr ty (Some a)) (VPtr ty (Some a)) \<lparr>t = ty\<rparr> = Some r"
proof (induction rule: converse_rtranclp_induct)
  case base
  then show ?case by blast
next
  case (step s s1)
  from step.IH [OF step.prems] obtain k where
    k: "AsLoop k env (fst s1) (snd s1) (VPtr ty (Some a)) (VPtr ty (Some a)) \<lparr>t = ty\<rparr> = Some r"
    by blast
  from AsLoop_mono [OF k, of m]
  have k': "AsLoop (m + k) env (fst s1) (snd s1) (VPtr ty (Some a)) (VPtr ty (Some a))
      \<lparr>t = ty\<rparr> = Some r"
    by (simp add: add.commute)
  from step.hyps(1) have "AsMiss m env (VPtr ty (Some a)) (fst s, snd s) (fst s1, snd s1)"
    by simp
  from As_miss_step [OF this, of k] k'
  show ?case by metis
qed

subsection \<open>The first match decides As\<close>

lemma As_total_from_loop:
  assumes "AsLoop k env H x (VPtr ty (Some a)) (VPtr ty (Some a)) \<lparr>t = ty\<rparr> = Some r"
  shows "\<exists>n0. \<forall>n\<ge>n0. As n env H x (VPtr ty (Some a)) = Some r"
proof (intro exI [of _ k] allI impI)
  fix n :: nat
  assume "k \<le> n"
  then obtain d where "n = k + d" by (auto simp: le_iff_add)
  with AsLoop_mono [OF assms, of d] show "As n env H x (VPtr ty (Some a)) = Some r"
    by (simp add: As_valid del: As.simps)
qed

text \<open>
  Claim C2. Let the traversal of \<open>As\<close>, started at node \<open>x\<close>, reach node \<open>x'\<close> with every
  node before it failing both tests. If the type of \<open>x'\<close> is assignable to the pointee type,
  \<open>As\<close> returns true with \<open>x'\<close> written into the target variable, whatever \<^verbatim>\<open>As\<close> method
  \<open>x'\<close> has: assignability is tested first. Otherwise, if the \<^verbatim>\<open>As\<close> method of \<open>x'\<close>
  returns true, \<open>As\<close> returns true with the heap that method left. In both cases the result
  does not depend on the nodes after \<open>x'\<close>, and every sufficient fuel gives it.
\<close>

theorem C2_As_first_match:
  assumes "(AsMiss m env (VPtr ty (Some a)))\<^sup>*\<^sup>* (H, x) (H', x')"
    and "TypeOf x' = Some ty'"
  shows "(AssignableTo env ty' ty \<and> a < length H' \<and> H' ! a = OVar y \<longrightarrow>
            (\<exists>n0. \<forall>n\<ge>n0. As n env H x (VPtr ty (Some a))
                              = Some (Inr (True, H'[a := OVar x']))))
       \<and> (\<not> AssignableTo env ty' ty \<and>
            callAs m env H' x' (VPtr ty (Some a)) = Some (Inr (True, H'')) \<longrightarrow>
            (\<exists>n0. \<forall>n\<ge>n0. As n env H x (VPtr ty (Some a)) = Some (Inr (True, H''))))"
proof (intro conjI impI)
  assume asg: "AssignableTo env ty' ty \<and> a < length H' \<and> H' ! a = OVar y"
  with assms(2) have
    "AsLoop 1 env H' x' (VPtr ty (Some a)) (VPtr ty (Some a)) \<lparr>t = ty\<rparr>
       = Some (Inr (True, H'[a := OVar x']))"
    by (simp add: AssignableFrom_def SetElem_def)
  with As_reach [OF assms(1), of 1 "Inr (True, H'[a := OVar x'])"]
  obtain k where "AsLoop k env H x (VPtr ty (Some a)) (VPtr ty (Some a)) \<lparr>t = ty\<rparr>
       = Some (Inr (True, H'[a := OVar x']))"
    by auto
  from As_total_from_loop [OF this]
  show "\<exists>n0. \<forall>n\<ge>n0. As n env H x (VPtr ty (Some a)) = Some (Inr (True, H'[a := OVar x']))" .
next
  assume hook: "\<not> AssignableTo env ty' ty \<and>
            callAs m env H' x' (VPtr ty (Some a)) = Some (Inr (True, H''))"
  with assms(2) have
    "AsLoop (Suc m) env H' x' (VPtr ty (Some a)) (VPtr ty (Some a)) \<lparr>t = ty\<rparr>
       = Some (Inr (True, H''))"
    by (simp add: AssignableFrom_def del: callAs.simps)
  with As_reach [OF assms(1), of "Suc m" "Inr (True, H'')"]
  obtain k where "AsLoop k env H x (VPtr ty (Some a)) (VPtr ty (Some a)) \<lparr>t = ty\<rparr>
       = Some (Inr (True, H''))"
    by auto
  from As_total_from_loop [OF this]
  show "\<exists>n0. \<forall>n\<ge>n0. As n env H x (VPtr ty (Some a)) = Some (Inr (True, H''))" .
qed

lemma link42_miss:
  "AsMiss 1 noMethods (VPtr TInt (Some 0)) (link42Heap, VPtr TLink (Some 1)) (link42Heap, VInt 42)"
  by (simp add: AsMiss_def eval_defs link42Heap_def)

text \<open>
  The theorem at three chains. The \<open>Link\<close> that holds "c" and wrapped 42, with an
  \<^verbatim>\<open>*int\<close> target, misses and 42 is written. The head of the chain built from "a", "b",
  "c", with a \<^verbatim>\<open>*string\<close> target, is not assignable and its own \<^verbatim>\<open>As\<close> writes "c". A
  \<open>Link\<close> that holds another \<open>Link\<close>, with a \<^verbatim>\<open>**Link\<close> target, is assignable itself: it is
  written, not the held one that its \<^verbatim>\<open>As\<close> method would have written.
\<close>

theorem C2_As_first_match_witness:
  "(AsMiss 1 noMethods (VPtr TInt (Some 0)))\<^sup>*\<^sup>*
       (link42Heap, VPtr TLink (Some 1)) (link42Heap, VInt 42)
   \<and> TypeOf (VInt 42) = Some TInt
   \<and> AssignableTo noMethods TInt TInt \<and> 0 < length link42Heap \<and> link42Heap ! 0 = OVar (VInt 7)
   \<and> (\<exists>n0. \<forall>n\<ge>n0. As n noMethods link42Heap (VPtr TLink (Some 1)) (VPtr TInt (Some 0))
                      = Some (Inr (True, link42Heap[0 := OVar (VInt 42)])))
   \<and> (AsMiss 1 noMethods (VPtr TString (Some 0)))\<^sup>*\<^sup>*
       (abcHeap, VPtr TBuildLink (Some 2)) (abcHeap, VPtr TBuildLink (Some 2))
   \<and> \<not> AssignableTo noMethods (TPtr TBuildLink) TString
   \<and> callAs 1 noMethods abcHeap (VPtr TBuildLink (Some 2)) (VPtr TString (Some 0))
        = Some (Inr (True, abcHeap[0 := OVar (VString ''c'')]))
   \<and> (\<exists>n0. \<forall>n\<ge>n0. As n noMethods abcHeap (VPtr TBuildLink (Some 2)) (VPtr TString (Some 0))
                      = Some (Inr (True, abcHeap[0 := OVar (VString ''c'')])))
   \<and> (AsMiss 1 noMethods (VPtr (TPtr TLink) (Some 0)))\<^sup>*\<^sup>*
       (linkVarHeap, VPtr TLink (Some 1)) (linkVarHeap, VPtr TLink (Some 1))
   \<and> AssignableTo noMethods (TPtr TLink) (TPtr TLink)
   \<and> linkVarHeap ! 0 = OVar (VPtr TLink None)
   \<and> callAs 1 noMethods linkVarHeap (VPtr TLink (Some 1)) (VPtr (TPtr TLink) (Some 0))
        = Some (Inr (True, linkVarHeap[0 := OVar (VPtr TLink (Some 2))]))
   \<and> (\<exists>n0. \<forall>n\<ge>n0. As n noMethods linkVarHeap (VPtr TLink (Some 1)) (VPtr (TPtr TLink) (Some 0))
                      = Some (Inr (True, linkVarHeap[0 := OVar (VPtr TLink (Some 1))])))"
  using r_into_rtranclp [of "AsMiss 1 noMethods (VPtr TInt (Some 0))", OF link42_miss]
    C2_As_first_match [OF r_into_rtranclp [of "AsMiss 1 noMethods (VPtr TInt (Some 0))",
        OF link42_miss], where ty' = TInt and y = "VInt 7"]
    C2_As_first_match [where m = 1 and env = noMethods and ty = TString and a = 0
      and H = abcHeap and x = "VPtr TBuildLink (Some 2)" and ty' = "TPtr TBuildLink"
      and H'' = "abcHeap[0 := OVar (VString ''c'')]", OF rtranclp.rtrancl_refl]
    C2_As_first_match [where m = 1 and env = noMethods and ty = "TPtr TLink" and a = 0
      and H = linkVarHeap and x = "VPtr TLink (Some 1)" and ty' = "TPtr TLink"
      and y = "VPtr TLink None", OF rtranclp.rtrancl_refl]
  by (simp add: eval_defs abcHeap_def link42Heap_def linkVarHeap_def)

subsection \<open>A node whose As method returns false\<close>

text \<open>
  Claim C6 as stated fails: the \<^verbatim>\<open>As\<close> method of the \<open>Link\<close> that holds "c" returns false
  for an \<^verbatim>\<open>*int\<close> target and leaves the heap as it was, yet the traversal goes on to the
  wrapped 42, returns true and overwrites the sentinel 7 in the target variable.
\<close>

theorem C6_counterexample:
  "TypeOf (VPtr TLink (Some 1)) = Some (TPtr TLink)
   \<and> \<not> AssignableTo noMethods (TPtr TLink) TInt
   \<and> callAs 1 noMethods link42Heap (VPtr TLink (Some 1)) (VPtr TInt (Some 0))
        = Some (Inr (False, link42Heap))
   \<and> As 2 noMethods link42Heap (VPtr TLink (Some 1)) (VPtr TInt (Some 0))
        = Some (Inr (True, link42Heap[0 := OVar (VInt 42)]))
   \<and> link42Heap ! 0 = OVar (VInt 7)
   \<and> link42Heap[0 := OVar (VInt 42)] ! 0 = OVar (VInt 42)"
  by (simp add: eval_defs link42Heap_def numeral_2_eq_2)

text \<open>
  Claim C6, amended. When a node is not assignable and its \<^verbatim>\<open>As\<close> method returns false,
  \<open>As\<close> writes nothing itself at that node and advances with \<open>Unwrap\<close>: it returns false,
  with the heap as the method and \<open>Unwrap\<close> left it, when the node has no predecessor, and
  continues the search at the predecessor otherwise.
\<close>

theorem C6_As_hook_false_advances:
  assumes "TypeOf x = Some ty'"
    and "\<not> AssignableTo env ty' ty"
    and "callAs n env H x (VPtr ty (Some a)) = Some (Inr (False, H1))"
  shows "(Unwrap env H1 x = Inr ((y, False), H2) \<longrightarrow>
            As (Suc n) env H x (VPtr ty (Some a)) = Some (Inr (False, H2)))
       \<and> (Unwrap env H1 x = Inr ((y, True), H2) \<longrightarrow>
            As (Suc n) env H x (VPtr ty (Some a)) = As n env H2 y (VPtr ty (Some a)))"
  using assms
  by (simp add: As_valid AssignableFrom_def del: As.simps callAs.simps)

text \<open>
  The theorem at a node without predecessor whose method refuses (the sentinel stays) and
  at the \<open>Link\<close> that wrapped 42 (the search continues).
\<close>

theorem C6_As_hook_false_advances_witness:
  "TypeOf (VPtr (TNamed ''asMatcher'') (Some 1)) = Some (TPtr (TNamed ''asMatcher''))
   \<and> \<not> AssignableTo refuseProg (TPtr (TNamed ''asMatcher'')) TString
   \<and> callAs 0 refuseProg sentinelHeap (VPtr (TNamed ''asMatcher'') (Some 1))
        (VPtr TString (Some 0)) = Some (Inr (False, sentinelHeap))
   \<and> Unwrap refuseProg sentinelHeap (VPtr (TNamed ''asMatcher'') (Some 1))
        = Inr ((VNil, False), sentinelHeap)
   \<and> As (Suc 0) refuseProg sentinelHeap (VPtr (TNamed ''asMatcher'') (Some 1))
        (VPtr TString (Some 0)) = Some (Inr (False, sentinelHeap))
   \<and> TypeOf (VPtr TLink (Some 1)) = Some (TPtr TLink)
   \<and> \<not> AssignableTo noMethods (TPtr TLink) TInt
   \<and> callAs 1 noMethods link42Heap (VPtr TLink (Some 1)) (VPtr TInt (Some 0))
        = Some (Inr (False, link42Heap))
   \<and> Unwrap noMethods link42Heap (VPtr TLink (Some 1)) = Inr ((VInt 42, True), link42Heap)
   \<and> As (Suc 1) noMethods link42Heap (VPtr TLink (Some 1)) (VPtr TInt (Some 0))
        = As 1 noMethods link42Heap (VInt 42) (VPtr TInt (Some 0))"
  using C6_As_hook_false_advances [where env = refuseProg and H = sentinelHeap
      and x = "VPtr (TNamed ''asMatcher'') (Some 1)" and ty' = "TPtr (TNamed ''asMatcher'')"
      and ty = TString and a = 0 and n = 0 and ?H1.0 = sentinelHeap and y = VNil
      and ?H2.0 = sentinelHeap]
    C6_As_hook_false_advances [where env = noMethods and H = link42Heap
      and x = "VPtr TLink (Some 1)" and ty' = "TPtr TLink" and ty = TInt and a = 0 and n = 1
      and ?H1.0 = link42Heap and y = "VInt 42" and ?H2.0 = link42Heap]
  by (simp add: eval_defs refuseProg_def sentinelHeap_def link42Heap_def)

subsection \<open>Link.Is and uncomparable values\<close>

text \<open>
  Claim C10 as stated fails: a chain that contains a \<open>Link\<close> holding a slice, headed by a
  node whose own \<^verbatim>\<open>Is\<close> method returns true, makes \<open>Is\<close> return true for a slice target
  without ever comparing the slice.
\<close>

theorem C10_counterexample:
  "Unwrap alwaysProg sliceLinkHeap alwaysNode = Inr ((VPtr TLink (Some 0), True), sliceLinkHeap)
   \<and> loadLink sliceLinkHeap (Some 0)
        = Inr (0, \<lparr>h = zeroHolder, v = VSlice TInt (Some [VInt 1])\<rparr>)
   \<and> \<not> comparable (VSlice TInt (Some [VInt 1]))
   \<and> Is 5 alwaysProg sliceLinkHeap alwaysNode (VSlice TInt (Some [VInt 1]))
        = Some (Inr (True, sliceLinkHeap))"
  by (simp add: eval_defs alwaysProg_def sliceLinkHeap_def alwaysNode_def eval_nat_numeral)

lemma goEq_uncomparable:
  "TypeOf a = TypeOf b \<Longrightarrow> \<not> comparable a \<Longrightarrow> goEq a b = Inl UncomparableType"
  by (cases a; cases b; simp)

lemma goEq_pointer_identity: "goEq a (VPtr ty q) = Inr True \<Longrightarrow> a = VPtr ty q"
  by (cases a) (auto split: if_splits)

text \<open>
  Claim C10, amended. \<^verbatim>\<open>Link.Is\<close> compares with the operator ==: for a pointer target it
  is true only for the identical pointer. When the traversal of \<open>Is\<close> reaches a \<open>Link\<close> (or
  \<open>buildLink\<close>) whose held value has an uncomparable dynamic type and the target has the
  same dynamic type, \<open>Is\<close> panics with the run-time error, for every sufficient fuel.
\<close>

theorem C10_Link_Is_native_equality:
  assumes "(IsMiss env target)\<^sup>*\<^sup>* (H, x) (H', x')"
    and "x' = VPtr TLink p \<and> loadLink H' p = Inr (a, l)
         \<or> x' = VPtr TBuildLink p \<and> loadBuildLink H' p = Inr (a, l)"
    and "TypeOf (v l) = TypeOf target"
    and "\<not> comparable (v l)"
  shows "(\<exists>n0. \<forall>n\<ge>n0. Is n env H x target = Some (Inl UncomparableType))
       \<and> Is (Suc n) env H' x' target = Some (Inl UncomparableType)
       \<and> Link_Is l target = Inl UncomparableType
       \<and> (\<forall>l' ty q. Link_Is l' (VPtr ty q) = Inr True \<longrightarrow> v l' = VPtr ty q)"
proof -
  have eq: "goEq (v l) target = Inl UncomparableType"
    using assms(3,4) by (rule goEq_uncomparable)
  have nn: "\<not> Nil x'"
    using assms(2) by (cases p) (auto simp: Nil_def ValueOf_def loadLink_def loadBuildLink_def)
  have call: "callIs env H' x' target = Inl UncomparableType"
    using assms(2) eq
    by (auto simp: callIs_def Link_Is_def buildLink_Is_def simp del: goEq.simps)
  have head: "Is (Suc k) env H' x' target = Some (Inl UncomparableType)" for k
    using nn call by simp
  from Is_reach [OF assms(1), of "Suc 0" "Inl UncomparableType"] head [of 0]
  obtain k where k: "Is (Suc 0 + k) env H x target = Some (Inl UncomparableType)"
    by auto
  have "\<forall>n\<ge>Suc 0 + k. Is n env H x target = Some (Inl UncomparableType)"
  proof (intro allI impI)
    fix n :: nat
    assume "Suc 0 + k \<le> n"
    then obtain d where "n = (Suc 0 + k) + d" by (auto simp: le_iff_add)
    with Is_mono [OF k, of d] show "Is n env H x target = Some (Inl UncomparableType)"
      by simp
  qed
  then have "\<exists>n0. \<forall>n\<ge>n0. Is n env H x target = Some (Inl UncomparableType)"
    by blast
  moreover have "\<forall>l' ty q. Link_Is l' (VPtr ty q) = Inr True \<longrightarrow> v l' = VPtr ty q"
    using goEq_pointer_identity by (auto simp: Link_Is_def simp del: goEq.simps)
  ultimately show ?thesis
    using head [of n] eq by (simp add: Link_Is_def del: goEq.simps Is.simps)
qed

lemma sliceChain_miss:
  "IsMiss noMethods (VSlice TInt (Some [VInt 2]))
     (sliceChainHeap, VPtr TLink (Some 1)) (sliceChainHeap, VPtr TBuildLink (Some 0))"
  by (simp add: IsMiss_def eval_defs sliceChainHeap_def)

text \<open>
  The theorem on the second node of a two-node chain, with a slice target; and two distinct
  pointers to equal cells, deeply equal but not equal for \<^verbatim>\<open>Link.Is\<close>.
\<close>

theorem C10_Link_Is_native_equality_witness:
  "(IsMiss noMethods (VSlice TInt (Some [VInt 2])))\<^sup>*\<^sup>*
      (sliceChainHeap, VPtr TLink (Some 1)) (sliceChainHeap, VPtr TBuildLink (Some 0))
   \<and> loadBuildLink sliceChainHeap (Some 0)
        = Inr (0, \<lparr>h = Hold (VInt 1), v = VSlice TInt (Some [VInt 1])\<rparr>)
   \<and> TypeOf (VSlice TInt (Some [VInt 1])) = TypeOf (VSlice TInt (Some [VInt 2]))
   \<and> \<not> comparable (VSlice TInt (Some [VInt 1]))
   \<and> (\<exists>n0. \<forall>n\<ge>n0. Is n noMethods sliceChainHeap (VPtr TLink (Some 1))
                        (VSlice TInt (Some [VInt 2])) = Some (Inl UncomparableType))
   \<and> Is (Suc 0) noMethods sliceChainHeap (VPtr TBuildLink (Some 0))
        (VSlice TInt (Some [VInt 2])) = Some (Inl UncomparableType)
   \<and> DeepEqual [OVar (VInt 1), OVar (VInt 1)] (VPtr TInt (Some 0)) (VPtr TInt (Some 1))
   \<and> Link_Is \<lparr>h = zeroHolder, v = VPtr TInt (Some 0)\<rparr> (VPtr TInt (Some 1)) = Inr False
   \<and> Link_Is \<lparr>h = zeroHolder, v = VPtr TInt (Some 0)\<rparr> (VPtr TInt (Some 0)) = Inr True"
  using r_into_rtranclp [of "IsMiss noMethods (VSlice TInt (Some [VInt 2]))",
      OF sliceChain_miss]
    C10_Link_Is_native_equality [OF r_into_rtranclp
        [of "IsMiss noMethods (VSlice TInt (Some [VInt 2]))", OF sliceChain_miss],
      where p = "Some 0" and a = 0 and n = 0
        and l = "\<lparr>h = Hold (VInt 1), v = VSlice TInt (Some [VInt 1])\<rparr>"]
  by (simp add: eval_defs sliceChainHeap_def)

subsection \<open>Nil nodes and advancing in Is\<close>

text \<open>
  Claim C5 as stated fails: a nil \<^verbatim>\<open>*N\<close> node and the nil interface target are both
  semantically nil and of different types; none of the tests matches, the node has a
  predecessor (the nil interface, which would match the target), and \<open>Is\<close> returns false
  at once instead of advancing.
\<close>

theorem C5_counterexample:
  "Nil (VPtr (TNamed ''N'') None) \<and> Nil VNil
   \<and> TypeOf (VPtr (TNamed ''N'') None) \<noteq> TypeOf VNil
   \<and> callIs nilNodeProg [] (VPtr (TNamed ''N'') None) VNil = Inr (False, [])
   \<and> \<not> DeepEqual [] (VPtr (TNamed ''N'') None) VNil
   \<and> Unwrap nilNodeProg [] (VPtr (TNamed ''N'') None) = Inr ((VNil, True), [])
   \<and> Is 5 nilNodeProg [] VNil VNil = Some (Inr (True, []))
   \<and> Is 5 nilNodeProg [] (VPtr (TNamed ''N'') None) VNil = Some (Inr (False, []))"
  by (simp add: eval_defs nilNodeProg_def eval_nat_numeral)

lemma Is_false_cases:
  assumes "Is (Suc n) env H x target = Some (Inr (False, H'))"
  shows "(Nil x \<and> Nil target \<and> TypeOf x \<noteq> TypeOf target \<and> H' = H)
       \<or> (\<exists>H1 y. callIs env H x target = Inr (False, H1) \<and> \<not> DeepEqual H1 x target \<and>
                  Unwrap env H1 x = Inr ((y, False), H'))
       \<or> (\<exists>y H2. IsMiss env target (H, x) (H2, y) \<and>
                  Is n env H2 y target = Some (Inr (False, H')))"
proof (cases "Nil x \<and> Nil target")
  case True
  with assms show ?thesis by auto
next
  case False
  with assms obtain b H1 where c: "callIs env H x target = Inr (b, H1)"
    by (cases "callIs env H x target") auto
  with assms False have b: "\<not> b" and d: "\<not> DeepEqual H1 x target"
    by (auto split: if_splits)
  with assms False c obtain y ok H2 where u: "Unwrap env H1 x = Inr ((y, ok), H2)"
    by (cases "Unwrap env H1 x") auto
  show ?thesis
  proof (cases ok)
    case True
    with assms False c b d u have "Is n env H2 y target = Some (Inr (False, H'))"
      by simp
    moreover from False c b d u True have "IsMiss env target (H, x) (H2, y)"
      by (simp add: IsMiss_def)
    ultimately show ?thesis by blast
  next
    case ok: False
    with assms False c b d u have "H2 = H'" by simp
    with c b d u ok have "callIs env H x target = Inr (False, H1) \<and>
        \<not> DeepEqual H1 x target \<and> Unwrap env H1 x = Inr ((y, False), H')"
      by simp
    then show ?thesis by blast
  qed
qed

text \<open>
  Claim C5, amended. When node and target are both semantically nil the result is decided at
  that node: true exactly when their dynamic types are identical, so \<open>Is(nil, nil)\<close> is true
  and \<open>Is(nil, (*[]T)(nil))\<close> is false. Otherwise, when neither the \<^verbatim>\<open>Is\<close> method nor deep
  equality matches, the traversal advances with \<open>Unwrap\<close>, and returns false when the node
  has no predecessor. \<open>Is\<close> returns false only in these ways: at a both-nil node of another
  type, at a node without predecessor, or from the rest of the chain.
\<close>

theorem C5_Is_nil_and_advance:
  "(Nil x \<and> Nil target \<longrightarrow>
      Is (Suc n) env H x target = Some (Inr (TypeOf x = TypeOf target, H)))
   \<and> Is (Suc n) env H VNil VNil = Some (Inr (True, H))
   \<and> Is (Suc n) env H VNil (VPtr (TSlice ty) None) = Some (Inr (False, H))
   \<and> (IsMiss env target (H, x) (H2, y) \<longrightarrow>
        Is (Suc n) env H x target = Is n env H2 y target)
   \<and> (\<not> (Nil x \<and> Nil target) \<and> callIs env H x target = Inr (False, H1) \<and>
      \<not> DeepEqual H1 x target \<and> Unwrap env H1 x = Inr ((y, False), H2) \<longrightarrow>
        Is (Suc n) env H x target = Some (Inr (False, H2)))
   \<and> (Is (Suc n) env H x target = Some (Inr (False, H')) \<longrightarrow>
        (Nil x \<and> Nil target \<and> TypeOf x \<noteq> TypeOf target \<and> H' = H)
        \<or> (\<exists>H1 y. callIs env H x target = Inr (False, H1) \<and> \<not> DeepEqual H1 x target \<and>
                   Unwrap env H1 x = Inr ((y, False), H'))
        \<or> (\<exists>y H2. IsMiss env target (H, x) (H2, y) \<and>
                   Is n env H2 y target = Some (Inr (False, H'))))"
proof -
  have "Is (Suc n) env H VNil VNil = Some (Inr (True, H))"
    by (simp add: Nil_def ValueOf_def)
  moreover have "Is (Suc n) env H VNil (VPtr (TSlice ty) None) = Some (Inr (False, H))"
    by (simp add: Nil_def ValueOf_def)
  moreover have "IsMiss env target (H, x) (H2, y) \<longrightarrow>
        Is (Suc n) env H x target = Is n env H2 y target"
    using Is_miss_step [of env target H x H2 y n] by blast
  ultimately show ?thesis
    using Is_false_cases [of n env H x target H']
    by (simp del: Is.simps) simp
qed

lemma abc_Is_miss:
  "IsMiss noMethods (VString ''a'') (abcHeap, VPtr TBuildLink (Some 2))
     (abcHeap, VPtr TBuildLink (Some 1))"
  by (simp add: IsMiss_def eval_defs abcHeap_def)

text \<open>
  The theorem at \<open>Is(nil, nilSlice)\<close>, at the head of the chain built from "a", "b", "c",
  and at a plain string that has no predecessor.
\<close>

theorem C5_Is_nil_and_advance_witness:
  "Nil VNil \<and> Nil (VSlice TInt None)
   \<and> Is (Suc 0) noMethods [] VNil (VSlice TInt None) = Some (Inr (False, []))
   \<and> IsMiss noMethods (VString ''a'') (abcHeap, VPtr TBuildLink (Some 2))
        (abcHeap, VPtr TBuildLink (Some 1))
   \<and> Is (Suc 2) noMethods abcHeap (VPtr TBuildLink (Some 2)) (VString ''a'')
        = Is 2 noMethods abcHeap (VPtr TBuildLink (Some 1)) (VString ''a'')
   \<and> \<not> (Nil (VString ''a'') \<and> Nil (VString ''d''))
   \<and> callIs noMethods [] (VString ''a'') (VString ''d'') = Inr (False, [])
   \<and> \<not> DeepEqual [] (VString ''a'') (VString ''d'')
   \<and> Unwrap noMethods [] (VString ''a'') = Inr ((VNil, False), [])
   \<and> Is (Suc 0) noMethods [] (VString ''a'') (VString ''d'') = Some (Inr (False, []))"
  using abc_Is_miss
    C5_Is_nil_and_advance [where x = VNil and target = "VSlice TInt None" and n = 0
      and env = noMethods and H = "[]"]
    C5_Is_nil_and_advance [where x = "VPtr TBuildLink (Some 2)" and target = "VString ''a''"
      and n = 2 and env = noMethods and H = abcHeap and ?H2.0 = abcHeap
      and y = "VPtr TBuildLink (Some 1)"]
    C5_Is_nil_and_advance [where x = "VString ''a''" and target = "VString ''d''"
      and n = 0 and env = noMethods and H = "[]" and ?H1.0 = "[]" and ?H2.0 = "[]"
      and y = VNil]
  by (simp add: eval_defs del: Is.simps)

subsection \<open>Is: method first, deep equality as fallback\<close>

lemma map_of_keys_values:
  "distinct (map fst es) \<Longrightarrow> map (\<lambda>k. the (map_of es k)) (map fst es) = map snd es"
  by (induction es) (auto simp: rev_image_eqI)

lemma map_of_keys_present:
  "list_all (\<lambda>k. map_of es k \<noteq> None) (map fst es)"
  by (induction es) (auto simp: list_all_iff weak_map_of_SomeI)

lemma deepValueEquals_refl_aux:
  "xs = ys \<Longrightarrow> list_all selfEqual xs \<Longrightarrow> deepValueEquals H vis xs ys"
proof (induction H vis xs ys rule: deepValueEquals.induct)
  case (1 H vis ys)
  then show ?case by simp
next
  case (2 H vis x xs)
  then show ?case by simp
next
  case (3 H vis x xs y ys)
  from "3.prems" have xy: "y = x" "ys = xs" and sx: "selfEqual x" and sxs: "list_all selfEqual xs"
    by simp_all
  have tl: "deepValueEquals H vis xs ys"
    using "3.IH"(5) xy sxs by simp
  have hd: "deepValueEquals H vis [x] [x]"
  proof (cases x)
    case (VSlice ty s)
    show ?thesis
    proof (cases s)
      case None
      with VSlice show ?thesis by simp
    next
      case (Some es)
      with VSlice sx have "list_all selfEqual es" by simp
      with "3.IH"(1) [of ty s ty s es es] VSlice Some xy
      have "deepValueEquals H vis es es" by simp
      with VSlice Some show ?thesis by simp
    qed
  next
    case (VMap kt vt m)
    show ?thesis
    proof (cases m)
      case None
      with VMap show ?thesis by simp
    next
      case (Some es)
      with VMap sx have d: "distinct (map fst es)" and s: "list_all selfEqual (map snd es)"
        by (simp_all add: list_all_iff)
      have kv: "map (\<lambda>k. the (map_of es k)) (map fst es) = map snd es"
        using d by (rule map_of_keys_values)
      have kp: "list_all (\<lambda>k. map_of es k \<noteq> None) (map fst es)"
        by (rule map_of_keys_present)
      have "x \<noteq> VNil \<and> y \<noteq> VNil" "TypeOf x = TypeOf y"
        using VMap xy by simp_all
      from "3.IH"(2) [of kt vt m kt vt m es es, unfolded kv] this VMap Some xy s
      have deq: "deepValueEquals H vis (map snd es) (map snd es)"
        by simp
      have kv': "map ((\<lambda>k. the (map_of es k)) \<circ> fst) es = map snd es"
        using kv by simp
      show ?thesis
        using VMap Some kp deq by (simp add: kv')
    qed
  next
    case (VPtr ty p)
    then show ?thesis by (cases p) simp_all
  next
    case (VStruct n fs)
    with sx have "list_all selfEqual (map snd fs)" by (simp add: list_all_iff)
    with "3.IH"(4) [of n fs n fs] VStruct xy
    have "deepValueEquals H vis (map snd fs) (map snd fs)" by simp
    with VStruct show ?thesis by simp
  qed (use sx in simp_all)
  from hd tl xy show ?case
    by (simp del: TypeOf.simps)
qed

lemma DeepEqual_refl: "selfEqual x \<Longrightarrow> DeepEqual H x x"
  by (simp add: DeepEqual_def deepValueEquals_refl_aux del: deepValueEquals.simps)

lemma DeepEqual_TypeOf: "DeepEqual H a b \<Longrightarrow> TypeOf a = TypeOf b"
  by (auto simp: DeepEqual_def split: if_splits)

text \<open>
  Claim C4 as stated fails twice. A non-nil function value is not deeply equal to itself,
  so \<open>Is(f, f)\<close> is false for it. And a nil \<^verbatim>\<open>*M\<close> node whose \<^verbatim>\<open>Is\<close> method returns true
  for every target does not match the nil interface: both are semantically nil, their types
  differ, and the method is not consulted.
\<close>

theorem C4_counterexample:
  "\<not> Nil (VFunc ''func()'' (Some 0))
   \<and> Is 5 noMethods [] (VFunc ''func()'' (Some 0)) (VFunc ''func()'' (Some 0))
        = Some (Inr (False, []))
   \<and> callIs matchAllProg [] (VPtr (TNamed ''M'') None) VNil = Inr (True, [])
   \<and> Is 5 matchAllProg [] (VPtr (TNamed ''M'') None) VNil = Some (Inr (False, []))"
  by (simp add: eval_defs matchAllProg_def eval_nat_numeral)

lemma callIs_no_method:
  "TypeOf x = Some ty \<Longrightarrow> \<not> hasIs env ty \<Longrightarrow> callIs env H x target = Inr (False, H)"
  by (auto simp: callIs_def hasIs_def builtin_def userMethod_def)

text \<open>
  Claim C4, amended. Unless node and target are both semantically nil, a node whose \<^verbatim>\<open>Is\<close>
  method returns true matches, whatever deep equality says. Deep equality is the fallback:
  \<open>Is(v, v)\<close> is true for every non-nil \<open>v\<close> that contains no non-nil function value
  (provided the \<^verbatim>\<open>Is\<close> method of \<open>v\<close>, if any, returns), and a value deeply equal to the
  target matches when its type has no \<^verbatim>\<open>Is\<close> method or the method returns false.
\<close>

theorem C4_Is_hook_and_deep_equality:
  "(\<not> (Nil x \<and> Nil target) \<and> callIs env H x target = Inr (True, H1) \<longrightarrow>
      Is (Suc n) env H x target = Some (Inr (True, H1)))
   \<and> (\<not> Nil x \<and> selfEqual x \<and> callIs env H x x = Inr (b, H1) \<longrightarrow>
      Is (Suc n) env H x x = Some (Inr (True, H1)))
   \<and> (DeepEqual H x y \<and> callIs env H x y = Inr (False, H) \<longrightarrow>
      Is (Suc n) env H x y = Some (Inr (True, H)))
   \<and> (DeepEqual H x y \<and> TypeOf x = Some ty \<and> \<not> hasIs env ty \<longrightarrow>
      Is (Suc n) env H x y = Some (Inr (True, H)))"
proof (intro conjI impI)
  assume "\<not> (Nil x \<and> Nil target) \<and> callIs env H x target = Inr (True, H1)"
  then show "Is (Suc n) env H x target = Some (Inr (True, H1))" by auto
next
  assume a: "\<not> Nil x \<and> selfEqual x \<and> callIs env H x x = Inr (b, H1)"
  then have "DeepEqual H1 x x" by (simp add: DeepEqual_refl)
  with a show "Is (Suc n) env H x x = Some (Inr (True, H1))" by simp
next
  assume a: "DeepEqual H x y \<and> callIs env H x y = Inr (False, H)"
  then have "TypeOf x = TypeOf y" by (blast dest: DeepEqual_TypeOf)
  with a show "Is (Suc n) env H x y = Some (Inr (True, H))" by simp
next
  assume a: "DeepEqual H x y \<and> TypeOf x = Some ty \<and> \<not> hasIs env ty"
  then have "TypeOf x = TypeOf y" and "callIs env H x y = Inr (False, H)"
    by (blast dest: DeepEqual_TypeOf, blast intro: callIs_no_method)
  with a show "Is (Suc n) env H x y = Some (Inr (True, H))" by simp
qed

text \<open>
  The theorem at a node whose method matches a string key, at a \<open>Link\<close> pointer compared
  with itself, and at two distinct pointers to equal structs, \<open>Is(&T{}, &T{})\<close>.
\<close>

theorem C4_Is_hook_and_deep_equality_witness:
  "\<not> (Nil alwaysNode \<and> Nil (VString ''key''))
   \<and> callIs alwaysProg sliceLinkHeap alwaysNode (VString ''key'') = Inr (True, sliceLinkHeap)
   \<and> \<not> DeepEqual sliceLinkHeap alwaysNode (VString ''key'')
   \<and> Is (Suc 0) alwaysProg sliceLinkHeap alwaysNode (VString ''key'')
        = Some (Inr (True, sliceLinkHeap))
   \<and> \<not> Nil (VPtr TLink (Some 0)) \<and> selfEqual (VPtr TLink (Some 0))
   \<and> callIs noMethods sliceLinkHeap (VPtr TLink (Some 0)) (VPtr TLink (Some 0))
        = Inr (False, sliceLinkHeap)
   \<and> Is (Suc 0) noMethods sliceLinkHeap (VPtr TLink (Some 0)) (VPtr TLink (Some 0))
        = Some (Inr (True, sliceLinkHeap))
   \<and> DeepEqual twoStructHeap (VPtr (TNamed ''T'') (Some 0)) (VPtr (TNamed ''T'') (Some 1))
   \<and> TypeOf (VPtr (TNamed ''T'') (Some 0)) = Some (TPtr (TNamed ''T''))
   \<and> \<not> hasIs noMethods (TPtr (TNamed ''T''))
   \<and> callIs noMethods twoStructHeap (VPtr (TNamed ''T'') (Some 0)) (VPtr (TNamed ''T'') (Some 1))
        = Inr (False, twoStructHeap)
   \<and> Is (Suc 0) noMethods twoStructHeap (VPtr (TNamed ''T'') (Some 0))
        (VPtr (TNamed ''T'') (Some 1)) = Some (Inr (True, twoStructHeap))"
  using C4_Is_hook_and_deep_equality [where env = alwaysProg and H = sliceLinkHeap
      and x = alwaysNode and target = "VString ''key''" and ?H1.0 = sliceLinkHeap and n = 0]
    C4_Is_hook_and_deep_equality [where env = noMethods and H = sliceLinkHeap
      and x = "VPtr TLink (Some 0)" and b = False and ?H1.0 = sliceLinkHeap and n = 0]
    C4_Is_hook_and_deep_equality [where env = noMethods and H = twoStructHeap
      and x = "VPtr (TNamed ''T'') (Some 0)" and y = "VPtr (TNamed ''T'') (Some 1)"
      and ty = "TPtr (TNamed ''T'')" and n = 0]
  by (simp add: eval_defs alwaysProg_def alwaysNode_def sliceLinkHeap_def twoStructHeap_def
        del: Is.simps)

subsection \<open>Frame properties\<close>

text \<open>
  Claim C9 as stated fails for \<open>Build\<close>: on two \<open>Link\<close> pointers it calls \<^verbatim>\<open>Wrap\<close> on the
  second one, which stores the first in its holder, so an input value is modified.
\<close>

theorem C9_counterexample:
  "Build noMethods twoLinkHeap [VPtr TLink (Some 0), VPtr TLink (Some 1)]
     = Inr (VPtr TLink (Some 1),
            twoLinkHeap[1 := OLink \<lparr>h = Hold (VPtr TLink (Some 0)), v = VString ''2''\<rparr>])
   \<and> twoLinkHeap ! 1 = OLink \<lparr>h = zeroHolder, v = VString ''2''\<rparr>
   \<and> Hold (VPtr TLink (Some 0)) \<noteq> zeroHolder"
  by (simp add: eval_defs twoLinkHeap_def)

lemma callWrap_noMethods_frame:
  assumes "callWrap noMethods H dst src = Inr (ok, H1)"
  shows "length H1 = length H"
    and "i < length H \<Longrightarrow> dst \<noteq> VPtr TLink (Some i) \<Longrightarrow> dst \<noteq> VPtr TBuildLink (Some i) \<Longrightarrow>
         H1 ! i = H ! i"
    and "\<not> ok \<Longrightarrow> H1 = H"
proof -
  show "length H1 = length H"
    using assms
    by (auto simp: callWrap_def Link_Wrap_def buildLink_Wrap_def split: if_splits sum.splits)
  show "H1 ! i = H ! i"
    if "i < length H" "dst \<noteq> VPtr TLink (Some i)" "dst \<noteq> VPtr TBuildLink (Some i)"
    using assms that
    by (cases dst)
       (auto simp: callWrap_def Link_Wrap_def buildLink_Wrap_def loadLink_def loadBuildLink_def
             split: if_splits sum.splits option.splits obj.splits)
  show "H1 = H" if "\<not> ok"
    using assms that
    by (auto simp: callWrap_def Link_Wrap_def buildLink_Wrap_def split: if_splits sum.splits)
qed

lemma BuildLoop_noMethods_frame:
  "BuildLoop noMethods H src rest = Inr (c, H') \<Longrightarrow>
   length H \<le> length H' \<and>
   (\<forall>i<length H. VPtr TLink (Some i) \<notin> set rest \<and> VPtr TBuildLink (Some i) \<notin> set rest
       \<longrightarrow> H' ! i = H ! i)"
proof (induction rest arbitrary: H src)
  case Nil
  then show ?case by simp
next
  case (Cons dst rest)
  from Cons.prems obtain ok H1 where w: "callWrap noMethods H dst src = Inr (ok, H1)"
    by (cases "callWrap noMethods H dst src") auto
  note fr = callWrap_noMethods_frame [OF w]
  show ?case
  proof (cases ok)
    case True
    with Cons.prems w have "BuildLoop noMethods H1 dst rest = Inr (c, H')" by simp
    from Cons.IH [OF this] fr(1,2) show ?thesis by auto
  next
    case False
    with fr(3) have H1: "H1 = H" by simp
    define H4 where
      "H4 = H @ [OBuildLink \<lparr>h = Hold src, v = dst\<rparr>]"
    from Cons.prems w False H1
    have "BuildLoop noMethods H4 (VPtr TBuildLink (Some (length H))) rest = Inr (c, H')"
      by (simp add: Let_def ptr_Link_Set_def ptr_buildLink_Wrap_def loadBuildLink_def
            buildLink_Wrap_def Link_Wrap_def Link_Set_def Holder_Set_def Hold_def
            zeroLink_def zeroHolder_def H4_def)
    from Cons.IH [OF this] show ?thesis
      by (auto simp: H4_def nth_append)
  qed
qed

lemma As_noMethods_frame:
  "As n noMethods H x (VPtr ty (Some a)) = Some r \<Longrightarrow> asFrame H a r"
  by (simp add: As_valid AsLoop_noMethods del: As.simps)

text \<open>
  Claim C9, amended, for a program without methods of its own (every node is a default link
  or a plain value). \<open>Is\<close> and \<open>Unwrap\<close> leave the heap as it is; \<open>As\<close> with a valid target
  leaves the heap as it is when it returns false and changes at most the target variable
  when it returns true; \<open>Build\<close> only allocates new cells and leaves every existing cell as it
  is, except the \<open>Link\<close> and \<open>buildLink\<close> cells passed after the first value, whose
  \<^verbatim>\<open>Wrap\<close> it calls.
\<close>

theorem C9_frame_default_nodes:
  "(Is n noMethods H x target = Some (Inr (b, H')) \<longrightarrow> H' = H)
   \<and> (Unwrap noMethods H x = Inr (r, H') \<longrightarrow> H' = H)
   \<and> (As n noMethods H x (VPtr ty (Some a)) = Some (Inr (False, H')) \<longrightarrow> H' = H)
   \<and> (As n noMethods H x (VPtr ty (Some a)) = Some (Inr (True, H')) \<longrightarrow>
        (\<exists>w. H' = H[a := OVar w]))
   \<and> (Build noMethods H vals = Inr (c, H') \<longrightarrow>
        length H \<le> length H' \<and>
        (\<forall>i<length H. VPtr TLink (Some i) \<notin> set (tl vals) \<and>
                       VPtr TBuildLink (Some i) \<notin> set (tl vals) \<longrightarrow> H' ! i = H ! i))"
proof -
  have 1: "Is n noMethods H x target = Some (Inr (b, H')) \<longrightarrow> H' = H"
    by (blast dest: Is_noMethods_heap)
  have 2: "Unwrap noMethods H x = Inr (r, H') \<longrightarrow> H' = H"
    by (blast dest: Unwrap_noMethods_heap)
  have 3: "As n noMethods H x (VPtr ty (Some a)) = Some (Inr (False, H')) \<longrightarrow> H' = H"
    using As_noMethods_frame [of n H x ty a "Inr (False, H')"] by simp
  have 4: "As n noMethods H x (VPtr ty (Some a)) = Some (Inr (True, H')) \<longrightarrow>
        (\<exists>w. H' = H[a := OVar w])"
    using As_noMethods_frame [of n H x ty a "Inr (True, H')"] by simp
  have 5: "length H \<le> length H' \<and>
        (\<forall>i<length H. VPtr TLink (Some i) \<notin> set (tl vals) \<and>
                       VPtr TBuildLink (Some i) \<notin> set (tl vals) \<longrightarrow> H' ! i = H ! i)"
    if b: "Build noMethods H vals = Inr (c, H')"
  proof (cases vals)
    case Nil
    with b show ?thesis by (simp add: Build_def)
  next
    case (Cons x rest)
    show ?thesis
    proof (cases rest)
      case Nil
      with Cons b show ?thesis by (simp add: Build_def)
    next
      case (Cons y ys)
      with \<open>vals = x # rest\<close> b have "BuildLoop noMethods H x rest = Inr (c, H')"
        by (simp add: Build_def del: BuildLoop.simps)
      from BuildLoop_noMethods_frame [OF this] \<open>vals = x # rest\<close> show ?thesis
        by simp
    qed
  qed
  from 1 2 3 4 5 show ?thesis by blast
qed

text \<open>
  The theorem on the chain built from "a", "b", "c" and on a plain integer with a string
  target.
\<close>

theorem C9_frame_default_nodes_witness:
  "Is 3 noMethods abcHeap (VPtr TBuildLink (Some 2)) (VString ''a'') = Some (Inr (True, abcHeap))
   \<and> Unwrap noMethods abcHeap (VPtr TBuildLink (Some 2))
        = Inr ((VPtr TBuildLink (Some 1), True), abcHeap)
   \<and> As 1 noMethods sentinelHeap (VInt 3) (VPtr TString (Some 0))
        = Some (Inr (False, sentinelHeap))
   \<and> As 2 noMethods abcHeap (VPtr TBuildLink (Some 2)) (VPtr TString (Some 0))
        = Some (Inr (True, abcHeap[0 := OVar (VString ''c'')]))
   \<and> (\<exists>w. abcHeap[0 := OVar (VString ''c'')] = abcHeap[0 := OVar w])
   \<and> Build noMethods [OVar (VString '''')] [VString ''a'', VString ''b'', VString ''c'']
        = Inr (VPtr TBuildLink (Some 2), abcHeap)
   \<and> length [OVar (VString '''')] \<le> length abcHeap
   \<and> abcHeap ! 0 = [OVar (VString '''')] ! 0"
  using C9_frame_default_nodes [where n = 3 and H = abcHeap and x = "VPtr TBuildLink (Some 2)"
      and target = "VString ''a''" and b = True and H' = abcHeap
      and r = "(VPtr TBuildLink (Some 1), True)"]
    C9_frame_default_nodes [where n = 1 and H = sentinelHeap and x = "VInt 3"
      and ty = TString and a = 0 and H' = sentinelHeap]
    C9_frame_default_nodes [where n = 2 and H = abcHeap and x = "VPtr TBuildLink (Some 2)"
      and ty = TString and a = 0 and H' = "abcHeap[0 := OVar (VString ''c'')]"]
    C9_frame_default_nodes [where H = "[OVar (VString [])]"
      and vals = "[VString ''a'', VString ''b'', VString ''c'']"
      and c = "VPtr TBuildLink (Some 2)" and H' = abcHeap]
  by (simp add: eval_defs abcHeap_def sentinelHeap_def eval_nat_numeral)

end
